theory Spec2Isabelle
  imports Complex_Main "HOL-Library.Word"
begin

unbundle bit_operations_syntax

section \<open>Shared vocabulary: time, logging, exceptions\<close>

text \<open>
  The event loop's clock (\<^verbatim>\<open>env.loop.time()\<close>) is a Python float. It is modelled by a
  rational number of seconds, and the subtraction of two clock values is taken to be exact.
  Python's built-in \<^verbatim>\<open>round(x)\<close> on a float rounds to the nearest integer, a tie going to
  the even neighbour.
\<close>

definition py_round :: "rat \<Rightarrow> int" where
  "py_round x =
     (let f = \<lfloor>x\<rfloor>; r = x - of_int f in
      if r < 1 / 2 then f
      else if 1 / 2 < r then f + 1
      else if even f then f else f + 1)"

text \<open>\<^verbatim>\<open>TIMEOUT: Final[int] = 10 * 60\<close>\<close>

definition TIMEOUT :: int where
  "TIMEOUT = 10 * 60"

datatype level = DEBUG | INFO | WARNING | ERROR

text \<open>
  A log record keeps the level and which message of the source it is; of the interpolated
  arguments it keeps the numbers and the link. The summary line keeps the task count, the
  time difference and the parts that \<^verbatim>\<open>_stat\<close> joins with a comma.
\<close>

datatype log_msg =
    Summary int int "(string \<times> int list) list"
  | NoTask int
  | Msg string "int list" string

datatype log_record = Log level log_msg

text \<open>
  Exceptions as the handlers of the source tell them apart: \<^verbatim>\<open>asyncio.CancelledError\<close>
  (a \<^verbatim>\<open>BaseException\<close> that is no \<^verbatim>\<open>Exception\<close>), any subclass of \<^verbatim>\<open>Exception\<close>, and any
  other \<^verbatim>\<open>BaseException\<close>.
\<close>

datatype exc = CancelledError | Exception string | BaseException string

section \<open>MonitoringCounter and MonitoringStat\<close>

text \<open>
  \<^verbatim>\<open>MonitoringCounter\<close> is a \<^verbatim>\<open>collections.Counter\<close> keyed by strings: a missing key reads
  as 0, \<^verbatim>\<open>clear()\<close> removes every key, and \<^verbatim>\<open>a += b\<close> adds key by key and then drops every
  key whose count is not positive.
\<close>

type_synonym MonitoringCounter = "string \<Rightarrow> int"

definition counter_empty :: MonitoringCounter where
  "counter_empty = (\<lambda>k. 0)"

definition counter_iadd :: "MonitoringCounter \<Rightarrow> MonitoringCounter \<Rightarrow> MonitoringCounter" where
  "counter_iadd a b = (\<lambda>k. if 0 < a k + b k then a k + b k else 0)"

definition incr :: "string \<Rightarrow> MonitoringCounter \<Rightarrow> MonitoringCounter" where
  "incr key c = c(key := c key + 1)"

record MonitoringStat =
  counter_tier1 :: MonitoringCounter
  counter_tier2 :: MonitoringCounter
  tier1_last_summary_time :: "rat option"
  tier2_last_summary_time :: "rat option"
  tier1_summary_period :: int

definition MonitoringStat_init :: MonitoringStat where
  "MonitoringStat_init =
     \<lparr>counter_tier1 = counter_empty, counter_tier2 = counter_empty,
      tier1_last_summary_time = None, tier2_last_summary_time = None,
      tier1_summary_period = TIMEOUT\<rparr>"

text \<open>The tag methods of \<^verbatim>\<open>MonitoringStat\<close>; each is named after its method.\<close>

definition stat_sum :: "MonitoringStat \<Rightarrow> MonitoringStat" where
  "stat_sum self = self\<lparr>counter_tier2 := incr ''SUM'' (counter_tier2 self)\<rparr>"

definition stat_not_updated :: "MonitoringStat \<Rightarrow> MonitoringStat" where
  "stat_not_updated self =
     stat_sum (self\<lparr>counter_tier2 := incr ''not_updated'' (counter_tier2 self)\<rparr>)"

definition stat_cached :: "MonitoringStat \<Rightarrow> MonitoringStat" where
  "stat_cached self =
     stat_not_updated (self\<lparr>counter_tier2 := incr ''cached'' (counter_tier2 self)\<rparr>)"

definition stat_empty :: "MonitoringStat \<Rightarrow> MonitoringStat" where
  "stat_empty self =
     stat_not_updated (self\<lparr>counter_tier2 := incr ''empty'' (counter_tier2 self)\<rparr>)"

definition stat_failed :: "MonitoringStat \<Rightarrow> MonitoringStat" where
  "stat_failed self =
     stat_sum (self\<lparr>counter_tier2 := incr ''failed'' (counter_tier2 self)\<rparr>)"

definition stat_updated :: "MonitoringStat \<Rightarrow> MonitoringStat" where
  "stat_updated self =
     stat_sum (self\<lparr>counter_tier2 := incr ''updated'' (counter_tier2 self)\<rparr>)"

definition stat_skipped :: "MonitoringStat \<Rightarrow> MonitoringStat" where
  "stat_skipped self =
     stat_sum (self\<lparr>counter_tier2 := incr ''skipped'' (counter_tier2 self)\<rparr>)"

definition stat_timeout :: "MonitoringStat \<Rightarrow> MonitoringStat" where
  "stat_timeout self =
     stat_sum (self\<lparr>counter_tier2 := incr ''timeout'' (counter_tier2 self)\<rparr>)"

definition stat_cancelled :: "MonitoringStat \<Rightarrow> MonitoringStat" where
  "stat_cancelled self =
     stat_sum (self\<lparr>counter_tier2 := incr ''cancelled'' (counter_tier2 self)\<rparr>)"

definition stat_unknown_error :: "MonitoringStat \<Rightarrow> MonitoringStat" where
  "stat_unknown_error self =
     stat_sum (self\<lparr>counter_tier2 := incr ''unknown_error'' (counter_tier2 self)\<rparr>)"

definition stat_timeout_unknown_error :: "MonitoringStat \<Rightarrow> MonitoringStat" where
  "stat_timeout_unknown_error self =
     stat_sum (self\<lparr>counter_tier2 := incr ''timeout_unknown_error'' (counter_tier2 self)\<rparr>)"

definition stat_deferred :: "MonitoringStat \<Rightarrow> MonitoringStat" where
  "stat_deferred self =
     stat_sum (self\<lparr>counter_tier2 := incr ''deferred'' (counter_tier2 self)\<rparr>)"

definition stat_resubmitted :: "MonitoringStat \<Rightarrow> MonitoringStat" where
  "stat_resubmitted self =
     stat_sum (self\<lparr>counter_tier2 := incr ''resubmitted'' (counter_tier2 self)\<rparr>)"

text \<open>
  \<^verbatim>\<open>_stat\<close>: the parts of the summary string in the order of the source. The first two are
  always there, each of the others only when its count is not zero
  (\<^verbatim>\<open>filter(None, ...)\<close> drops the empty strings).
\<close>

definition stat_part :: "MonitoringCounter \<Rightarrow> string \<Rightarrow> string \<Rightarrow> (string \<times> int list) list" where
  "stat_part counter label key = (if counter key \<noteq> 0 then [(label, [counter key])] else [])"

definition stat_str :: "MonitoringCounter \<Rightarrow> (string \<times> int list) list" where
  "stat_str counter =
     [(''updated'', [counter ''updated'']),
      (''not updated'', [counter ''not_updated'', counter ''cached'', counter ''empty''])]
     @ stat_part counter ''fetch failed'' ''failed''
     @ stat_part counter ''skipped'' ''skipped''
     @ stat_part counter ''cancelled'' ''cancelled''
     @ stat_part counter ''unknown error'' ''unknown_error''
     @ stat_part counter ''timeout'' ''timeout''
     @ stat_part counter ''timeout w/ unknown error'' ''timeout_unknown_error''
     @ stat_part counter ''deferred'' ''deferred''
     @ stat_part counter ''resubmitted'' ''resubmitted''"

definition summarize :: "MonitoringCounter \<Rightarrow> level \<Rightarrow> int \<Rightarrow> log_record" where
  "summarize counter default_log_level time_diff =
     (let task_count = counter ''SUM'' in
      if task_count \<noteq> 0 then
        Log (if counter ''cancelled'' \<noteq> 0 \<or> counter ''unknown_error'' \<noteq> 0
                \<or> counter ''timeout'' \<noteq> 0 \<or> counter ''timeout_unknown_error'' \<noteq> 0
             then WARNING else default_log_level)
            (Summary task_count time_diff (stat_str counter))
      else Log DEBUG (NoTask time_diff))"

text \<open>
  \<^verbatim>\<open>print_summary\<close>, with the clock reading \<open>now\<close> as an argument. It returns the new
  statistics and the log records it emitted, oldest first. Subtracting from a
  \<^verbatim>\<open>_tier2_last_summary_time\<close> that is still \<^verbatim>\<open>None\<close> is Python's \<^verbatim>\<open>TypeError\<close>.
  \<^verbatim>\<open>gc.collect()\<close> has no effect on the modelled state.
\<close>

datatype py_error = TypeError | AssertionError | AttributeError | OverflowError | ValueError

definition print_summary ::
  "rat \<Rightarrow> MonitoringStat \<Rightarrow> py_error + (MonitoringStat \<times> log_record list)" where
  "print_summary now self =
     (case tier1_last_summary_time self of
        None \<Rightarrow>
          Inr (self\<lparr>tier1_last_summary_time := Some now,
                    tier2_last_summary_time := Some now\<rparr>, [])
      | Some t1 \<Rightarrow>
          (case tier2_last_summary_time self of
             None \<Rightarrow> Inl TypeError
           | Some t2 \<Rightarrow>
               (let tier2_time_diff = py_round (now - t2);
                    log2 = summarize (counter_tier2 self) DEBUG tier2_time_diff;
                    self = self\<lparr>tier2_last_summary_time := Some now\<rparr>;
                    self = self\<lparr>counter_tier1 :=
                                  counter_iadd (counter_tier1 self) (counter_tier2 self)\<rparr>;
                    self = self\<lparr>counter_tier2 := counter_empty\<rparr>;
                    tier1_time_diff = py_round (now - t1)
                in if tier1_time_diff < tier1_summary_period self then Inr (self, [log2])
                   else
                     (let log1 = summarize (counter_tier1 self) INFO tier1_time_diff;
                          self = self\<lparr>tier1_last_summary_time := Some now\<rparr>;
                          self = self\<lparr>counter_tier1 := counter_empty\<rparr>
                      in Inr (self, [log2, log1])))))"

text \<open>
  Any sequence of calls on a \<^verbatim>\<open>MonitoringStat\<close>: the twelve tag methods and
  \<^verbatim>\<open>print_summary\<close> at some clock reading.
\<close>

datatype stat_call =
    Not_updated | Cached | Empty | Failed | Updated | Skipped | Timeout | Cancelled
  | Unknown_error | Timeout_unknown_error | Deferred | Resubmitted | Print_summary rat

fun stat_do :: "stat_call \<Rightarrow> MonitoringStat \<Rightarrow> MonitoringStat" where
  "stat_do Not_updated s = stat_not_updated s"
| "stat_do Cached s = stat_cached s"
| "stat_do Empty s = stat_empty s"
| "stat_do Failed s = stat_failed s"
| "stat_do Updated s = stat_updated s"
| "stat_do Skipped s = stat_skipped s"
| "stat_do Timeout s = stat_timeout s"
| "stat_do Cancelled s = stat_cancelled s"
| "stat_do Unknown_error s = stat_unknown_error s"
| "stat_do Timeout_unknown_error s = stat_timeout_unknown_error s"
| "stat_do Deferred s = stat_deferred s"
| "stat_do Resubmitted s = stat_resubmitted s"
| "stat_do (Print_summary now) s =
     (case print_summary now s of Inl e \<Rightarrow> s | Inr (s', logs) \<Rightarrow> s')"

fun stat_run :: "stat_call list \<Rightarrow> MonitoringStat \<Rightarrow> MonitoringStat" where
  "stat_run [] s = s"
| "stat_run (c # cs) s = stat_run cs (stat_do c s)"

definition sum_of_tags :: "MonitoringCounter \<Rightarrow> int" where
  "sum_of_tags c =
     c ''not_updated'' + c ''failed'' + c ''updated'' + c ''skipped'' + c ''timeout''
     + c ''cancelled'' + c ''unknown_error'' + c ''timeout_unknown_error''
     + c ''deferred'' + c ''resubmitted''"

definition bump :: "string set \<Rightarrow> MonitoringCounter \<Rightarrow> MonitoringCounter" where
  "bump K c = (\<lambda>k. if k \<in> K then c k + 1 else c k)"

definition tier2_bumped :: "string set \<Rightarrow> MonitoringStat \<Rightarrow> MonitoringStat" where
  "tier2_bumped K s = s\<lparr>counter_tier2 := bump K (counter_tier2 s)\<rparr>"

definition tier2_balanced :: "MonitoringStat \<Rightarrow> bool" where
  "tier2_balanced s = (counter_tier2 s ''SUM'' = sum_of_tags (counter_tier2 s))"

definition tier1_due :: "rat \<Rightarrow> rat \<Rightarrow> bool" where
  "tier1_due now t1 = (1199 / 2 \<le> now - t1)"

definition baselined :: MonitoringStat where
  "baselined = MonitoringStat_init\<lparr>tier1_last_summary_time := Some 0,
                                   tier2_last_summary_time := Some 0\<rparr>"

section \<open>TaskState, the feed record and the Monitor\<close>

text \<open>
  \<^verbatim>\<open>TaskState\<close> is an \<^verbatim>\<open>enum.IntFlag\<close>: an integer whose bits are the flags, combined with
  \<^verbatim>\<open>|\<close>, \<^verbatim>\<open>&\<close> and \<^verbatim>\<open>~\<close>. Its truth value is that of the integer.
\<close>

type_synonym TaskState = int

definition EMPTY :: TaskState where
  "EMPTY = 0"

definition LOCKED :: TaskState where
  "LOCKED = push_bit 0 1"

definition IN_PROGRESS :: TaskState where
  "IN_PROGRESS = push_bit 1 1"

definition DEFERRED :: TaskState where
  "DEFERRED = push_bit 2 1"

text \<open>
  Instants (\<^verbatim>\<open>datetime\<close>) are integers, the microseconds since the epoch in UTC, which is
  the resolution of \<^verbatim>\<open>datetime\<close> and \<^verbatim>\<open>timedelta\<close>.
\<close>

type_synonym datetime = int

definition timedelta_seconds :: "int \<Rightarrow> int" where
  "timedelta_seconds n = n * 1000000"

definition timedelta_minutes :: "int \<Rightarrow> int" where
  "timedelta_minutes n = n * 60 * 1000000"

text \<open>The fields of \<^verbatim>\<open>db.Feed\<close> that the monitor reads or writes.\<close>

record Feed =
  id' :: int
  link :: string
  title :: string
  etag :: "string option"
  last_modified :: "datetime option"
  updated_at :: datetime
  entry_hashes :: "string list option"
  error_count :: int
  next_check_time :: "datetime option"
  interval :: "int option"

text \<open>\<^verbatim>\<open>FEED_OR_ID = Union[int, db.Feed]\<close>\<close>

datatype FEED_OR_ID = A_Feed Feed | An_Id int

text \<open>\<^verbatim>\<open>db.EffectiveOptions\<close>, the configuration the monitor reads.\<close>

record EffectiveOptions =
  minimal_interval :: int
  default_interval :: int

text \<open>
  The \<^verbatim>\<open>Monitor\<close> object: its statistics, its unbounded queue and its defer map (a
  \<^verbatim>\<open>defaultdict\<close> whose missing keys read as \<^verbatim>\<open>TaskState.EMPTY\<close>). Two more
  components stand for what the object reaches outside itself: \<open>timers\<close>, the calls of
  \<^verbatim>\<open>_erase_state_for_feed_id\<close> that \<^verbatim>\<open>env.loop.call_later\<close> has scheduled and not yet run
  (delay in seconds, feed id, flag), and \<open>logs\<close>, the records handed to the logger.
\<close>

record Monitor =
  stat :: MonitoringStat
  queue :: "FEED_OR_ID list"
  task_defer_map :: "int \<Rightarrow> TaskState"
  timers :: "(int \<times> int \<times> TaskState) list"
  logs :: "log_record list"

definition Monitor_init :: Monitor where
  "Monitor_init =
     \<lparr>stat = MonitoringStat_init, queue = [], task_defer_map = (\<lambda>feed_id. EMPTY),
      timers = [], logs = []\<rparr>"

definition logger :: "level \<Rightarrow> log_msg \<Rightarrow> Monitor \<Rightarrow> Monitor" where
  "logger lvl msg self = self\<lparr>logs := logs self @ [Log lvl msg]\<rparr>"

definition put_nowait :: "FEED_OR_ID \<Rightarrow> Monitor \<Rightarrow> Monitor" where
  "put_nowait item self = self\<lparr>queue := queue self @ [item]\<rparr>"

definition call_later :: "int \<Rightarrow> int \<Rightarrow> TaskState \<Rightarrow> Monitor \<Rightarrow> Monitor" where
  "call_later delay feed_id flag self = self\<lparr>timers := timers self @ [(delay, feed_id, flag)]\<rparr>"

definition set_state :: "int \<Rightarrow> TaskState \<Rightarrow> Monitor \<Rightarrow> Monitor" where
  "set_state feed_id task_state self =
     self\<lparr>task_defer_map := (task_defer_map self)(feed_id := task_state)\<rparr>"

text \<open>\<^verbatim>\<open>Monitor._lock_feed_id\<close>\<close>

definition lock_feed_id :: "EffectiveOptions \<Rightarrow> int \<Rightarrow> Monitor \<Rightarrow> Monitor" where
  "lock_feed_id opts feed_id self =
     (if minimal_interval opts \<le> 1 then self
      else call_later (minimal_interval opts * 60) feed_id LOCKED
             (set_state feed_id LOCKED self))"

text \<open>\<^verbatim>\<open>Monitor.submit_feed\<close>\<close>

definition submit_feed :: "EffectiveOptions \<Rightarrow> Feed \<Rightarrow> Monitor \<Rightarrow> Monitor" where
  "submit_feed opts feed self =
     (let task_state = task_defer_map self (id' feed) in
      if task_state = DEFERRED then
        put_nowait (A_Feed feed)
          (lock_feed_id opts (id' feed)
            (logger WARNING
              (Msg ''A deferred task was never resubmitted'' [task_state, id' feed] (link feed))
              self))
      else if task_state \<noteq> 0 then
        logger DEBUG (Msg ''Deferred'' [task_state, id' feed] (link feed))
          ((set_state (id' feed) (task_state OR DEFERRED) self)
             \<lparr>stat := stat_deferred (stat self)\<rparr>)
      else put_nowait (A_Feed feed) (lock_feed_id opts (id' feed) self))"

text \<open>\<^verbatim>\<open>Monitor._erase_state_for_feed_id\<close>\<close>

definition erase_state_for_feed_id ::
  "EffectiveOptions \<Rightarrow> int \<Rightarrow> TaskState \<Rightarrow> Monitor \<Rightarrow> Monitor" where
  "erase_state_for_feed_id opts feed_id flag_to_erase self =
     (let task_state = task_defer_map self feed_id in
      if task_state = 0 then
        logger WARNING (Msg ''Unexpected empty state'' [task_state, feed_id] []) self
      else
        (let erased_state = task_state AND NOT flag_to_erase in
         if erased_state = DEFERRED then
           (let self = lock_feed_id opts feed_id self;
                self = put_nowait (An_Id feed_id) self;
                self = self\<lparr>stat := stat_resubmitted (stat self)\<rparr>
            in logger DEBUG (Msg ''Resubmitted a deferred task'' [task_state, feed_id] []) self)
         else set_state feed_id erased_state self))"

text \<open>
  The event loop runs the oldest scheduled call: every call is scheduled with the same
  delay, so they come due in the order in which they were scheduled.
\<close>

definition run_timer :: "EffectiveOptions \<Rightarrow> Monitor \<Rightarrow> Monitor" where
  "run_timer opts self =
     (case timers self of
        [] \<Rightarrow> self
      | (delay, feed_id, flag) # rest \<Rightarrow>
          erase_state_for_feed_id opts feed_id flag (self\<lparr>timers := rest\<rparr>))"

subsection \<open>The monitor worker\<close>

text \<open>
  \<^verbatim>\<open>Monitor._do_monitor_task\<close> is a coroutine. Between its synchronous stretches it is
  suspended (at the lookup of the feed and while it waits for the detector), and what
  the detector and the other tasks do to the shared monitor meanwhile is an argument of
  the model: \<open>during_lookup\<close> and \<open>during_wait\<close>.

  The lookup \<^verbatim>\<open>await db.Feed.get_or_none(id=feed_id)\<close> gives a feed, gives \<^verbatim>\<open>None\<close>, or
  raises (an error of the store, or the cancellation of the worker while it is suspended
  there). It stands before the \<^verbatim>\<open>try\<close> statement, so an exception it raises leaves the
  worker at once.

  What \<^verbatim>\<open>asyncio.wait\<close> on the one detector task gives, and what awaiting that task then
  gives, is an input as well: the wait itself raises (an internal failure of the worker,
  or its own cancellation), or the task is in \<^verbatim>\<open>pending\<close> (it did not finish within
  \<^verbatim>\<open>TIMEOUT\<close> seconds; it is cancelled and awaited), or it is in \<^verbatim>\<open>done\<close>.
  The log calls inside the handlers are taken not to raise.
\<close>

datatype task_result = Returned | Raised exc

datatype wait_result = Wait_raised exc | Pending task_result | Done task_result

definition mark_in_progress :: "int \<Rightarrow> Monitor \<Rightarrow> Monitor" where
  "mark_in_progress feed_id self =
     set_state feed_id (task_defer_map self feed_id OR IN_PROGRESS) self"

definition count :: "(MonitoringStat \<Rightarrow> MonitoringStat) \<Rightarrow> Monitor \<Rightarrow> Monitor" where
  "count tag self = self\<lparr>stat := tag (stat self)\<rparr>"

text \<open>The body of \<^verbatim>\<open>for task in pending\<close>: cancel, await, and the two handlers.\<close>

definition await_pending :: "string \<Rightarrow> task_result \<Rightarrow> Monitor \<Rightarrow> Monitor \<times> exc option" where
  "await_pending feed_link r self =
     (case r of
        Returned \<Rightarrow> (self, None)
      | Raised CancelledError \<Rightarrow>
          (logger ERROR (Msg ''Monitoring task timed out'' [TIMEOUT] feed_link)
             (count stat_timeout self), None)
      | Raised (Exception e) \<Rightarrow>
          (logger ERROR
             (Msg ''Monitoring task timed out and caused an unknown error'' [TIMEOUT] feed_link)
             (count stat_timeout_unknown_error self), None)
      | Raised (BaseException e) \<Rightarrow> (self, Some (BaseException e)))"

text \<open>The body of \<^verbatim>\<open>for task in done\<close>.\<close>

definition await_done :: "string \<Rightarrow> task_result \<Rightarrow> Monitor \<Rightarrow> Monitor \<times> exc option" where
  "await_done feed_link r self =
     (case r of
        Returned \<Rightarrow> (self, None)
      | Raised CancelledError \<Rightarrow>
          (logger ERROR (Msg ''Monitoring task failed due to CancelledError'' [] feed_link)
             (count stat_cancelled self), None)
      | Raised (Exception e) \<Rightarrow>
          (logger ERROR (Msg ''Monitoring task failed due to an unknown error'' [] feed_link)
             (count stat_unknown_error self), None)
      | Raised (BaseException e) \<Rightarrow> (self, Some (BaseException e)))"

text \<open>
  The \<^verbatim>\<open>try\<close> statement of the worker: the body, the outer \<^verbatim>\<open>except Exception\<close>, and the
  \<^verbatim>\<open>finally\<close> clause. The second component is the exception that leaves the worker.
\<close>

definition do_monitor_task_try ::
  "EffectiveOptions \<Rightarrow> int \<Rightarrow> string \<Rightarrow> wait_result \<Rightarrow> Monitor \<Rightarrow> Monitor \<times> exc option" where
  "do_monitor_task_try opts feed_id feed_link w self =
     (let (self, raised) =
            (case w of
               Wait_raised e \<Rightarrow> (self, Some e)
             | Pending r \<Rightarrow> await_pending feed_link r self
             | Done r \<Rightarrow> await_done feed_link r self);
          (self, raised) =
            (case raised of
               Some (Exception e) \<Rightarrow>
                 (logger ERROR (Msg ''Monitoring task failed due to an internal error'' [] feed_link)
                    (count stat_unknown_error self), None)
             | _ \<Rightarrow> (self, raised))
      in (erase_state_for_feed_id opts feed_id IN_PROGRESS self, raised))"

definition do_monitor_task ::
  "EffectiveOptions \<Rightarrow> (int \<Rightarrow> exc + Feed option) \<Rightarrow> (Monitor \<Rightarrow> Monitor)
     \<Rightarrow> (Monitor \<Rightarrow> Monitor) \<Rightarrow> wait_result \<Rightarrow> FEED_OR_ID \<Rightarrow> Monitor
     \<Rightarrow> Monitor \<times> exc option" where
  "do_monitor_task opts get_or_none during_lookup during_wait w feed self =
     (case feed of
        A_Feed f \<Rightarrow>
          do_monitor_task_try opts (id' f) (link f) w
            (during_wait (mark_in_progress (id' f) self))
      | An_Id feed_id \<Rightarrow>
          (let self = during_lookup (mark_in_progress feed_id self) in
           case get_or_none feed_id of
             Inl e \<Rightarrow> (self, Some e)
           | Inr None \<Rightarrow>
               (set_state feed_id EMPTY
                  (logger ERROR (Msg ''Feed not found'' [feed_id] []) self), None)
           | Inr (Some f) \<Rightarrow> do_monitor_task_try opts feed_id (link f) w (during_wait self)))"

text \<open>
  One round of \<^verbatim>\<open>Monitor._create_bg_task\<close>: the dispatcher takes the oldest item off the
  queue and starts a worker for it, which is then run to its end.
\<close>

definition create_bg_task_step ::
  "EffectiveOptions \<Rightarrow> (int \<Rightarrow> exc + Feed option) \<Rightarrow> (Monitor \<Rightarrow> Monitor)
     \<Rightarrow> (Monitor \<Rightarrow> Monitor) \<Rightarrow> wait_result \<Rightarrow> Monitor \<Rightarrow> Monitor \<times> exc option" where
  "create_bg_task_step opts get_or_none during_lookup during_wait w self =
     (case queue self of
        [] \<Rightarrow> (self, None)
      | feed # rest \<Rightarrow>
          do_monitor_task opts get_or_none during_lookup during_wait w feed
            (self\<lparr>queue := rest\<rparr>))"

section \<open>Delivery: sending to a subscriber and the blocked-user handler\<close>

text \<open>
  The module-level state of the delivery code: whether each user's lock in
  \<^verbatim>\<open>__user_unsub_all_lock_bucket\<close> is held, the \<^verbatim>\<open>Counter\<close> \<^verbatim>\<open>__user_blocked_counter\<close> (a
  missing key reads as 0 and deleting a key makes it read as 0), the calls of the external
  \<^verbatim>\<open>unsub_all_and_leave_chat\<close> made so far, and the records handed to the logger.
\<close>

record Delivery =
  user_unsub_all_lock_bucket :: "int \<Rightarrow> bool"
  user_blocked_counter :: "int \<Rightarrow> int"
  unsub_calls :: "int list"
  delivery_logs :: "log_record list"

definition Delivery_init :: Delivery where
  "Delivery_init =
     \<lparr>user_unsub_all_lock_bucket = (\<lambda>user_id. False), user_blocked_counter = (\<lambda>user_id. 0),
      unsub_calls = [], delivery_logs = []\<rparr>"

text \<open>
  \<^verbatim>\<open>__locked_unsub_all_and_leave_chat\<close> up to its only suspension point. Taking a free
  \<^verbatim>\<open>asyncio.Lock\<close> does not suspend, so the test of \<^verbatim>\<open>locked()\<close>, the acquisition and the
  counting are one synchronous stretch. The coroutine either finishes there, the lock
  released again, or it is left awaiting \<^verbatim>\<open>unsub_all_and_leave_chat\<close> with the lock held.
\<close>

datatype handler_exit = Finished | Awaiting_unsub

definition locked_unsub_all_and_leave_chat ::
  "int \<Rightarrow> string \<Rightarrow> Delivery \<Rightarrow> Delivery \<times> handler_exit" where
  "locked_unsub_all_and_leave_chat user_id err_msg self =
     (if user_unsub_all_lock_bucket self user_id then (self, Finished)
      else if user_blocked_counter self user_id < 5 then
        (self\<lparr>user_blocked_counter :=
                 (user_blocked_counter self)(user_id := user_blocked_counter self user_id + 1)\<rparr>,
         Finished)
      else
        (self\<lparr>user_unsub_all_lock_bucket := (user_unsub_all_lock_bucket self)(user_id := True),
               user_blocked_counter := (user_blocked_counter self)(user_id := 0),
               delivery_logs := delivery_logs self @ [Log ERROR (Msg ''User blocked'' [user_id] err_msg)],
               unsub_calls := unsub_calls self @ [user_id]\<rparr>,
         Awaiting_unsub))"

text \<open>The awaited call ends, by returning or by raising: \<^verbatim>\<open>async with\<close> releases the lock.\<close>

definition unsub_ended :: "int \<Rightarrow> Delivery \<Rightarrow> Delivery" where
  "unsub_ended user_id self =
     self\<lparr>user_unsub_all_lock_bucket := (user_unsub_all_lock_bucket self)(user_id := False)\<rparr>"

text \<open>
  \<^verbatim>\<open>__send\<close>, by what the transport does: the input entity cannot be got
  (\<^verbatim>\<open>ValueError\<close>), a plain string is sent, a post is sent, a user-blocked error is raised
  (with the name of its class), or a \<^verbatim>\<open>BadRequestError\<close> is raised (with its message).
  The error message passed for the first is \<^verbatim>\<open>type(EntityNotFoundError).__name__\<close>, the
  name of the class of a class. Any other exception is reported to the operator's chat and
  touches none of the state kept here; it is left out.
\<close>

datatype send_outcome =
    Cannot_get_entity | Sent_string | Sent_post | User_blocked string | Bad_request string

definition send :: "int \<Rightarrow> send_outcome \<Rightarrow> Delivery \<Rightarrow> Delivery \<times> handler_exit" where
  "send user_id r self =
     (case r of
        Cannot_get_entity \<Rightarrow> locked_unsub_all_and_leave_chat user_id ''type'' self
      | Sent_string \<Rightarrow> (self, Finished)
      | Sent_post \<Rightarrow>
          (if user_blocked_counter self user_id \<noteq> 0
           then self\<lparr>user_blocked_counter := (user_blocked_counter self)(user_id := 0)\<rparr>
           else self, Finished)
      | User_blocked name \<Rightarrow> locked_unsub_all_and_leave_chat user_id name self
      | Bad_request message \<Rightarrow>
          (if message = ''TOPIC_CLOSED''
           then locked_unsub_all_and_leave_chat user_id message self
           else (self, Finished)))"

text \<open>
  One blocked-style failure run to its end, with nothing else in between: the send raises a
  user-blocked error, and where the handler awaits the unsubscription, that call ends too.
\<close>

definition blocked_failure :: "int \<Rightarrow> string \<Rightarrow> Delivery \<Rightarrow> Delivery" where
  "blocked_failure user_id name self =
     (case send user_id (User_blocked name) self of
        (self', Finished) \<Rightarrow> self'
      | (self', Awaiting_unsub) \<Rightarrow> unsub_ended user_id self')"

text \<open>
  User 6 after three blocked-style failures in a row followed by the successful send of a
  plain string.
\<close>

definition three_failures_then_string :: Delivery where
  "three_failures_then_string =
     fst (send 6 Sent_string ((blocked_failure 6 ''UserIsBlockedError'' ^^ 3) Delivery_init))"

section \<open>The update detector\<close>

text \<open>
  What the detector gets from its collaborators. An entry of a feed is opaque to the
  monitor and stands as a string. Of a subscription the detector reads the user id only.
  The parsed feed \<^verbatim>\<open>rss_d\<close> is a \<^verbatim>\<open>FeedParserDict\<close>: \<^verbatim>\<open>rss_d.feed\<close> is a dictionary (read with
  \<^verbatim>\<open>.get\<close>, or as an attribute, which raises \<^verbatim>\<open>AttributeError\<close> on a missing key) and
  \<^verbatim>\<open>rss_d.entries\<close> a list.
\<close>

type_synonym entry = string

record Sub =
  user_id :: int
  notify :: bool

record WebResponse =
  wr_etag :: "string option"
  wr_expires :: "datetime option"
  wr_now :: datetime
  wr_last_modified :: "datetime option"
  wr_max_age :: "int option"

record FeedParserDict =
  rss_feed :: "string \<rightharpoonup> string"
  rss_entries :: "entry list"

record WebFeed =
  status :: int
  rss_d :: "FeedParserDict option"
  web_response :: "WebResponse option"
  url :: string
  error :: string
  headers :: "string \<rightharpoonup> string"

text \<open>
  The functions of other modules that the detector calls, taken as they come:
  \<^verbatim>\<open>feed.subs.filter(state=1)\<close>, \<^verbatim>\<open>locks.user_flood_lock(user_id).locked()\<close>,
  \<^verbatim>\<open>web.feed_get\<close>, \<^verbatim>\<open>html_space_stripper\<close>, \<^verbatim>\<open>inner.utils.calculate_update\<close>,
  \<^verbatim>\<open>inner.sub.migrate_to_new_url\<close> (\<open>Some\<close> where it returns a \<^verbatim>\<open>db.Feed\<close>),
  \<^verbatim>\<open>web.utils.rfc_2822_8601_to_datetime\<close> (the instant it parses and the offset of its time
  zone from UTC, both in microseconds; the datetimes it gives are taken to carry a time
  zone, as \<^verbatim>\<open>now\<close> does, so that they compare) and \<^verbatim>\<open>email.utils.format_datetime\<close>.
  They are taken to return; what they do beyond their result is recorded as an effect.
  The variable \<^verbatim>\<open>wf\<close> of the source is written \<open>wf'\<close>.
\<close>

record externals =
  subs_filter :: "Feed \<Rightarrow> Sub list"
  user_flood_lock_locked :: "int \<Rightarrow> bool"
  feed_get :: "string \<Rightarrow> (string \<times> string) list \<Rightarrow> WebFeed"
  html_space_stripper :: "string \<Rightarrow> string"
  calculate_update :: "string list option \<Rightarrow> entry list \<Rightarrow> string list \<times> entry list"
  migrate_to_new_url :: "Feed \<Rightarrow> string \<Rightarrow> Feed option"
  rfc_2822_8601_to_datetime :: "string \<Rightarrow> (datetime \<times> int) option"
  format_datetime :: "datetime \<Rightarrow> string"

datatype effect =
    Update_interval Feed
  | Deactivate_feed_and_notify_all Feed "Sub list" string
  | Migrate_to_new_url Feed string
  | Save Feed "string set"
  | Notify_all Feed "Sub list" entry

text \<open>
  \<^verbatim>\<open>str.isdecimal()\<close> and \<^verbatim>\<open>int(s)\<close> on the decimal digits 0 to 9. Python also accepts the
  decimal digits of other scripts, which a byte string does not have.
\<close>

definition isdecimal :: "string \<Rightarrow> bool" where
  "isdecimal s = (s \<noteq> [] \<and> list_all (\<lambda>c. c \<in> set ''0123456789'') s)"

definition int_of_decimal :: "string \<Rightarrow> int" where
  "int_of_decimal s = foldl (\<lambda>a c. 10 * a + (of_char c - 48)) 0 s"

text \<open>
  \<^verbatim>\<open>int(s)\<close> on a string of decimal digits raises \<^verbatim>\<open>ValueError\<close> beyond 4300 digits, the
  default limit of the interpreter for the conversion.
\<close>

definition py_int :: "string \<Rightarrow> py_error + int" where
  "py_int s = (if 4300 < length s then Inl ValueError else Inr (int_of_decimal s))"

text \<open>
  The library's bounds. \<^verbatim>\<open>timedelta(seconds=n)\<close> raises \<^verbatim>\<open>OverflowError\<close> when its days
  exceed 999999999 in magnitude. A \<^verbatim>\<open>datetime\<close> lies between the years 1 and 9999 on its
  own wall clock, and adding a \<^verbatim>\<open>timedelta\<close> raises \<^verbatim>\<open>OverflowError\<close> when the sum does not.
  The bounds are in microseconds since the epoch; the sum keeps the time zone.
\<close>

definition timedelta_of_seconds :: "int \<Rightarrow> py_error + int" where
  "timedelta_of_seconds n =
     (if \<bar>n div 86400\<bar> > 999999999 then Inl OverflowError else Inr (timedelta_seconds n))"

definition datetime_min_wall :: int where
  "datetime_min_wall = - 62135596800000000"

definition datetime_max_wall :: int where
  "datetime_max_wall = 253402300799999999"

definition datetime_add :: "datetime \<Rightarrow> int \<Rightarrow> int \<Rightarrow> py_error + datetime" where
  "datetime_add t utcoffset delta =
     (if datetime_min_wall \<le> t + utcoffset + delta \<and> t + utcoffset + delta \<le> datetime_max_wall
      then Inr (t + delta) else Inl OverflowError)"

text \<open>\<^verbatim>\<open>_defer_next_check_as_per_server_side_cache\<close>\<close>

definition defer_next_check_as_per_server_side_cache ::
  "externals \<Rightarrow> WebFeed \<Rightarrow> py_error + datetime option" where
  "defer_next_check_as_per_server_side_cache ext wf' =
     (case web_response wf' of
        None \<Rightarrow> Inl AssertionError
      | Some wr \<Rightarrow>
          (let expires = wr_expires wr;
               now = wr_now wr
           in if (case expires of
                    None \<Rightarrow> False
                  | Some e \<Rightarrow>
                      headers wf' ''cf-cache-status''
                        \<in> {Some ''HIT'', Some ''MISS'', Some ''EXPIRED'', Some ''REVALIDATED''}
                      \<and> e > now)
              then Inr expires
              else
                (case rss_d wf' of
                   None \<Rightarrow> Inl AttributeError
                 | Some rss \<Rightarrow>
                     (case (if rss_feed rss ''generator'' = Some ''RSSHub''
                            then rss_feed rss ''updated'' else None) of
                        None \<Rightarrow> Inr None
                      | Some updated_str \<Rightarrow>
                          if updated_str = [] then Inr None
                          else
                            (let ttl_in_minute_str =
                                   (case rss_feed rss ''ttl'' of None \<Rightarrow> [] | Some t \<Rightarrow> t)
                             in case (if isdecimal ttl_in_minute_str
                                      then (case py_int ttl_in_minute_str of
                                              Inl e \<Rightarrow> Inl e
                                            | Inr minutes \<Rightarrow> Inr (Some (minutes * 60)))
                                      else Inr None) of
                                  Inl e \<Rightarrow> Inl e
                                | Inr ttl_in_second \<Rightarrow>
                                    (let ttl_in_second =
                                           (case ttl_in_second of
                                              None \<Rightarrow> wr_max_age wr
                                            | Some t \<Rightarrow> Some t)
                                     in case ttl_in_second of
                                          None \<Rightarrow> Inr None
                                        | Some ttl \<Rightarrow>
                                            if ttl \<noteq> 0 \<and> ttl > 300 then
                                              (case rfc_2822_8601_to_datetime ext updated_str of
                                                 None \<Rightarrow> Inr None
                                               | Some (updated, utcoffset) \<Rightarrow>
                                                   (case timedelta_of_seconds ttl of
                                                      Inl e \<Rightarrow> Inl e
                                                    | Inr delta \<Rightarrow>
                                                        (case datetime_add updated utcoffset delta of
                                                           Inl e \<Rightarrow> Inl e
                                                         | Inr next_check_time' \<Rightarrow>
                                                             if next_check_time' > now
                                                             then Inr (Some next_check_time')
                                                             else Inr None)))
                                            else Inr None))))))"

text \<open>
  \<^verbatim>\<open>_do_monitor_a_feed\<close>. Its local variables that the \<^verbatim>\<open>finally\<close> block reads are kept in
  one record, together with the statistics and the effects so far. The \<^verbatim>\<open>try\<close> block ends
  by a \<^verbatim>\<open>return\<close>, by running to its end with the updated entries, or by an exception
  (a failed \<^verbatim>\<open>assert\<close>, a feed without a title, or what the computation of the next check
  time raises). The log lines are left out. The back-off adds at most 75 minutes to the
  current time and is taken to stay within the range of \<^verbatim>\<open>datetime\<close>.
\<close>

record detector_vars =
  feed_var :: Feed
  stat_var :: MonitoringStat
  no_error :: bool
  new_next_check_time :: "datetime option"
  feed_updated_fields :: "string set"
  effects :: "effect list"

datatype try_exit = Return | Fall_through "entry list" | Raise py_error

definition mark_field :: "string \<Rightarrow> detector_vars \<Rightarrow> detector_vars" where
  "mark_field name v = v\<lparr>feed_updated_fields := insert name (feed_updated_fields v)\<rparr>"

definition record_stat :: "(MonitoringStat \<Rightarrow> MonitoringStat) \<Rightarrow> detector_vars \<Rightarrow> detector_vars" where
  "record_stat tag v = v\<lparr>stat_var := tag (stat_var v)\<rparr>"

definition detector_try ::
  "externals \<Rightarrow> EffectiveOptions \<Rightarrow> datetime \<Rightarrow> Sub list \<Rightarrow> WebFeed \<Rightarrow> detector_vars
     \<Rightarrow> detector_vars \<times> try_exit" where
  "detector_try ext opts now subs wf' v =
     (if status wf' = 304 then (record_stat stat_cached v, Return)
      else
        (case rss_d wf' of
           None \<Rightarrow>
             (let v = v\<lparr>no_error := False\<rparr>;
                  v = v\<lparr>feed_var := (feed_var v)\<lparr>error_count := error_count (feed_var v) + 1\<rparr>\<rparr>;
                  v = mark_field ''error_count'' v
              in if error_count (feed_var v) \<ge> 100 then
                   (record_stat stat_failed
                      (v\<lparr>effects := effects v
                            @ [Deactivate_feed_and_notify_all (feed_var v) subs (error wf')]\<rparr>),
                    Return)
                 else
                   (let v =
                          (if error_count (feed_var v) \<ge> 10 then
                             (let interval =
                                    (case interval (feed_var v) of
                                       None \<Rightarrow> default_interval opts
                                     | Some i \<Rightarrow> if i \<noteq> 0 then i else default_interval opts);
                                  next_check_interval =
                                    min interval 15 * min (error_count (feed_var v) div 10 + 1) 5
                              in if next_check_interval > interval
                                 then v\<lparr>new_next_check_time :=
                                          Some (now + timedelta_minutes next_check_interval)\<rparr>
                                 else v)
                           else v)
                    in (record_stat stat_failed v, Return)))
         | Some rss \<Rightarrow>
             (case web_response wf' of
                None \<Rightarrow> (v, Raise AssertionError)
              | Some wr \<Rightarrow>
                  (let wr = wr\<lparr>wr_now := now\<rparr>;
                       wf' = wf'\<lparr>web_response := Some wr\<rparr>;
                       v = (case wr_etag wr of
                              None \<Rightarrow> v
                            | Some new_etag \<Rightarrow>
                                if new_etag \<noteq> [] \<and> Some new_etag \<noteq> etag (feed_var v)
                                then mark_field ''etag''
                                       (v\<lparr>feed_var := (feed_var v)\<lparr>etag := Some new_etag\<rparr>\<rparr>)
                                else v)
                   in case defer_next_check_as_per_server_side_cache ext wf' of
                        Inl e \<Rightarrow> (v, Raise e)
                      | Inr t \<Rightarrow>
                          (let v = v\<lparr>new_next_check_time := t\<rparr>
                           in if rss_entries rss = [] then (record_stat stat_empty v, Return)
                              else
                                (case rss_feed rss ''title'' of
                                   None \<Rightarrow> (v, Raise AttributeError)
                                 | Some feed_title \<Rightarrow>
                                     (let new_title =
                                            (if feed_title \<noteq> []
                                             then html_space_stripper ext feed_title else []);
                                          v = (if new_title \<noteq> title (feed_var v)
                                               then mark_field ''title''
                                                      (v\<lparr>feed_var := (feed_var v)\<lparr>title := new_title\<rparr>\<rparr>)
                                               else v);
                                          (new_hashes, updated_entries) =
                                            calculate_update ext (entry_hashes (feed_var v))
                                              (rss_entries rss)
                                      in if updated_entries = []
                                         then (record_stat stat_not_updated v, Return)
                                         else
                                           (let kept =
                                                  take (max (length (rss_entries rss) * 2) 100)
                                                    new_hashes;
                                                v = v\<lparr>feed_var := (feed_var v)
                                                       \<lparr>last_modified := wr_last_modified wr,
                                                        entry_hashes :=
                                                          (if kept = [] then None else Some kept)\<rparr>\<rparr>;
                                                v = mark_field ''last_modified''
                                                      (mark_field ''entry_hashes'' v)
                                            in (v, Fall_through updated_entries)))))))))"

text \<open>
  The \<^verbatim>\<open>finally\<close> block, statement by statement: the reset of the error count and the
  migration to a new URL under \<^verbatim>\<open>if no_error\<close>, the update of \<^verbatim>\<open>next_check_time\<close>, and the
  save of the fields that were marked.
\<close>

definition finally_reset_error_count :: "detector_vars \<Rightarrow> detector_vars" where
  "finally_reset_error_count v =
     (if error_count (feed_var v) > 0
      then mark_field ''error_count'' (v\<lparr>feed_var := (feed_var v)\<lparr>error_count := 0\<rparr>\<rparr>)
      else v)"

definition finally_migrate :: "externals \<Rightarrow> WebFeed \<Rightarrow> detector_vars \<Rightarrow> detector_vars" where
  "finally_migrate ext wf' v =
     (if url wf' \<noteq> link (feed_var v) then
        (let new_url_feed = migrate_to_new_url ext (feed_var v) (url wf');
             v = v\<lparr>effects := effects v @ [Migrate_to_new_url (feed_var v) (url wf')]\<rparr>
         in case new_url_feed of
              None \<Rightarrow> v
            | Some new_feed \<Rightarrow> v\<lparr>feed_var := new_feed\<rparr>)
      else v)"

definition finally_no_error :: "externals \<Rightarrow> WebFeed \<Rightarrow> detector_vars \<Rightarrow> detector_vars" where
  "finally_no_error ext wf' v =
     (if no_error v then finally_migrate ext wf' (finally_reset_error_count v) else v)"

definition finally_next_check_time :: "detector_vars \<Rightarrow> detector_vars" where
  "finally_next_check_time v =
     (if new_next_check_time v \<noteq> next_check_time (feed_var v)
      then mark_field ''next_check_time''
             (v\<lparr>feed_var := (feed_var v)\<lparr>next_check_time := new_next_check_time v\<rparr>\<rparr>)
      else v)"

definition finally_save :: "detector_vars \<Rightarrow> detector_vars" where
  "finally_save v =
     (if feed_updated_fields v \<noteq> {}
      then v\<lparr>effects := effects v @ [Save (feed_var v) (feed_updated_fields v)]\<rparr>
      else v)"

definition detector_finally :: "externals \<Rightarrow> WebFeed \<Rightarrow> detector_vars \<Rightarrow> detector_vars" where
  "detector_finally ext wf' v =
     finally_save (finally_next_check_time (finally_no_error ext wf' v))"

definition request_headers :: "externals \<Rightarrow> Feed \<Rightarrow> (string \<times> string) list" where
  "request_headers ext feed =
     [(''If-Modified-Since'',
       format_datetime ext
         (case last_modified feed of None \<Rightarrow> updated_at feed | Some t \<Rightarrow> t))]
     @ (case etag feed of
          None \<Rightarrow> []
        | Some e \<Rightarrow> if e \<noteq> [] then [(''If-None-Match'', e)] else [])"

definition do_monitor_a_feed ::
  "externals \<Rightarrow> EffectiveOptions \<Rightarrow> datetime \<Rightarrow> Feed \<Rightarrow> MonitoringStat
     \<Rightarrow> detector_vars \<times> py_error option" where
  "do_monitor_a_feed ext opts now feed stat0 =
     (let v = \<lparr>feed_var = feed, stat_var = stat0, no_error = True, new_next_check_time = None,
                feed_updated_fields = {}, effects = []\<rparr>
      in if (case next_check_time feed of None \<Rightarrow> False | Some t \<Rightarrow> now < t)
         then (record_stat stat_skipped v, None)
         else
           (let subs = subs_filter ext feed
            in if subs = [] then
                 (record_stat stat_skipped (v\<lparr>effects := [Update_interval feed]\<rparr>), None)
               else if list_all (\<lambda>sub. user_flood_lock_locked ext (user_id sub)) subs then
                 (record_stat stat_skipped v, None)
               else
                 (let wf' = feed_get ext (link feed) (request_headers ext feed);
                      (v, exit) = detector_try ext opts now subs wf' v;
                      v = detector_finally ext wf' v
                  in case exit of
                       Return \<Rightarrow> (v, None)
                     | Raise e \<Rightarrow> (v, Some e)
                     | Fall_through updated_entries \<Rightarrow>
                         (record_stat stat_updated
                            (v\<lparr>effects := effects v
                                  @ map (Notify_all (feed_var v) subs) (rev updated_entries)\<rparr>),
                          None))))"

section \<open>Descriptions of the monitor used in the statements\<close>

text \<open>A feed and two configurations for the worked scenarios.\<close>

definition feed7 :: Feed where
  "feed7 =
     \<lparr>id' = 7, link = ''https://example.org/feed.xml'', title = ''Example'', etag = None,
      last_modified = None, updated_at = 0, entry_hashes = None, error_count = 0,
      next_check_time = None, interval = None\<rparr>"

definition opts_interval_1 :: EffectiveOptions where
  "opts_interval_1 = \<lparr>minimal_interval = 1, default_interval = 10\<rparr>"

definition opts_interval_5 :: EffectiveOptions where
  "opts_interval_5 = \<lparr>minimal_interval = 5, default_interval = 10\<rparr>"

text \<open>
  What the worker is to record for each result of the wait, in the words of its protocol:
  a detector that had to be cancelled counts as \<open>timeout\<close> when its unwind raises the
  cancellation and as \<open>timeout_unknown_error\<close> when it raises another exception; a detector
  that finished counts as \<open>cancelled\<close> or \<open>unknown_error\<close> in the same two cases; a failure
  of the wait itself counts as \<open>unknown_error\<close>; nothing else is counted.
\<close>

fun classify :: "string \<Rightarrow> wait_result \<Rightarrow> Monitor \<Rightarrow> Monitor" where
  "classify l (Pending (Raised CancelledError)) s =
     logger ERROR (Msg ''Monitoring task timed out'' [TIMEOUT] l) (count stat_timeout s)"
| "classify l (Pending (Raised (Exception e))) s =
     logger ERROR (Msg ''Monitoring task timed out and caused an unknown error'' [TIMEOUT] l)
       (count stat_timeout_unknown_error s)"
| "classify l (Done (Raised CancelledError)) s =
     logger ERROR (Msg ''Monitoring task failed due to CancelledError'' [] l)
       (count stat_cancelled s)"
| "classify l (Done (Raised (Exception e))) s =
     logger ERROR (Msg ''Monitoring task failed due to an unknown error'' [] l)
       (count stat_unknown_error s)"
| "classify l (Wait_raised (Exception e)) s =
     logger ERROR (Msg ''Monitoring task failed due to an internal error'' [] l)
       (count stat_unknown_error s)"
| "classify l w s = s"

text \<open>The exception that no handler of the worker catches.\<close>

fun uncaught :: "wait_result \<Rightarrow> exc option" where
  "uncaught (Wait_raised CancelledError) = Some CancelledError"
| "uncaught (Wait_raised (BaseException e)) = Some (BaseException e)"
| "uncaught (Pending (Raised (BaseException e))) = Some (BaseException e)"
| "uncaught (Done (Raised (BaseException e))) = Some (BaseException e)"
| "uncaught w = None"

text \<open>The state on which the worker's \<^verbatim>\<open>try\<close> statement starts, for a feed that is found.\<close>

definition before_wait ::
  "(Monitor \<Rightarrow> Monitor) \<Rightarrow> (Monitor \<Rightarrow> Monitor) \<Rightarrow> FEED_OR_ID \<Rightarrow> Monitor \<Rightarrow> Monitor" where
  "before_wait during_lookup during_wait feed self =
     (case feed of
        A_Feed f \<Rightarrow> during_wait (mark_in_progress (id' f) self)
      | An_Id feed_id \<Rightarrow> during_wait (during_lookup (mark_in_progress feed_id self)))"

definition resolve :: "(int \<Rightarrow> exc + Feed option) \<Rightarrow> FEED_OR_ID \<Rightarrow> exc + Feed option" where
  "resolve get_or_none feed =
     (case feed of A_Feed f \<Rightarrow> Inr (Some f) | An_Id feed_id \<Rightarrow> get_or_none feed_id)"

definition feed_id_of :: "FEED_OR_ID \<Rightarrow> int" where
  "feed_id_of feed = (case feed of A_Feed f \<Rightarrow> id' f | An_Id feed_id \<Rightarrow> feed_id)"

definition resubmitted_count :: "Monitor \<Rightarrow> int" where
  "resubmitted_count self = counter_tier2 (stat self) ''resubmitted''"

definition deferred_count :: "Monitor \<Rightarrow> int" where
  "deferred_count self = counter_tier2 (stat self) ''deferred''"

text \<open>
  Feed 7 in progress with a submission deferred, under a minimal interval of one minute;
  the worker's final erase on that state; and the worker that the dispatcher then starts
  for the resubmitted id, with the feed found and the detector returning in time.
\<close>

definition deferred_in_progress :: Monitor where
  "deferred_in_progress = set_state 7 (DEFERRED OR IN_PROGRESS) Monitor_init"

definition after_erase :: Monitor where
  "after_erase = erase_state_for_feed_id opts_interval_1 7 IN_PROGRESS deferred_in_progress"

definition after_next_worker :: Monitor where
  "after_next_worker =
     fst (create_bg_task_step opts_interval_1 (\<lambda>feed_id. Inr (Some feed7)) id id (Done Returned)
            after_erase)"

text \<open>
  Feed 7 locked with a submission deferred and the unlock still scheduled, and the worker
  for id 7 when the store has no such feed.
\<close>

definition locked_deferred :: Monitor where
  "locked_deferred = call_later 300 7 LOCKED (set_state 7 (LOCKED OR DEFERRED) Monitor_init)"

definition after_not_found :: Monitor where
  "after_not_found =
     fst (do_monitor_task opts_interval_5 (\<lambda>feed_id. Inr None) id id (Done Returned) (An_Id 7)
            locked_deferred)"

text \<open>
  Feed 7 under a minimal interval of one minute, submitted on an empty state and so queued
  without a lock; the worker that the dispatcher starts for it, during whose wait the feed
  is submitted once more; and that worker's run to its end, the detector returning in time.
\<close>

definition submitted_unlocked :: Monitor where
  "submitted_unlocked = submit_feed opts_interval_1 feed7 Monitor_init"

definition after_worker_with_deferral :: "Monitor \<times> exc option" where
  "after_worker_with_deferral =
     create_bg_task_step opts_interval_1 (\<lambda>feed_id. Inr (Some feed7)) id
       (submit_feed opts_interval_1 feed7) (Done Returned) submitted_unlocked"

text \<open>The worker for the id 7 whose lookup raises an error of the store.\<close>

definition after_lookup_raised :: "Monitor \<times> exc option" where
  "after_lookup_raised =
     do_monitor_task opts_interval_5 (\<lambda>feed_id. Inl (Exception ''OperationalError'')) id id
       (Done Returned) (An_Id 7) Monitor_init"

section \<open>Descriptions of the detector used in the statements\<close>

text \<open>
  The detector gets as far as the fetch when the feed is due, has an active subscriber
  and not every subscriber is in flood wait; \<open>fetched\<close> is what the fetch then gives.
\<close>

definition reaches_fetch :: "externals \<Rightarrow> datetime \<Rightarrow> Feed \<Rightarrow> bool" where
  "reaches_fetch ext now feed =
     ((case next_check_time feed of None \<Rightarrow> True | Some t \<Rightarrow> t \<le> now)
      \<and> subs_filter ext feed \<noteq> []
      \<and> \<not> list_all (\<lambda>sub. user_flood_lock_locked ext (user_id sub)) (subs_filter ext feed))"

definition fetched :: "externals \<Rightarrow> Feed \<Rightarrow> WebFeed" where
  "fetched ext feed = feed_get ext (link feed) (request_headers ext feed)"

text \<open>
  The back-off after a failed fetch, in the words of its description: the interval is the
  feed's own, or the default one where the feed has none, and the candidate is
  \<open>min(interval, 15) * min(error_count // 10 + 1, 5)\<close> on the incremented error count.
\<close>

definition backoff_interval :: "EffectiveOptions \<Rightarrow> Feed \<Rightarrow> int" where
  "backoff_interval opts feed =
     (case interval feed of
        None \<Rightarrow> default_interval opts
      | Some i \<Rightarrow> if i = 0 then default_interval opts else i)"

definition backoff_candidate :: "EffectiveOptions \<Rightarrow> Feed \<Rightarrow> int" where
  "backoff_candidate opts feed =
     min (backoff_interval opts feed) 15 * min ((error_count feed + 1) div 10 + 1) 5"

definition failed_count :: "MonitoringStat \<Rightarrow> int" where
  "failed_count s = counter_tier2 s ''failed''"






text \<open>Collaborators, responses and feeds for the worked scenarios.\<close>

definition sub1 :: Sub where
  "sub1 = \<lparr>user_id = 1, notify = True\<rparr>"

definition ext_returning :: "WebFeed \<Rightarrow> externals" where
  "ext_returning wf' =
     \<lparr>subs_filter = (\<lambda>feed. [sub1]),
      user_flood_lock_locked = (\<lambda>user_id. False),
      feed_get = (\<lambda>feed_link request. wf'),
      html_space_stripper = (\<lambda>s. s),
      calculate_update = (\<lambda>hashes entries. ([], [])),
      migrate_to_new_url = (\<lambda>feed new_url. None),
      rfc_2822_8601_to_datetime =
        (\<lambda>s. if s = ''1970-01-01T00:00:00Z'' then Some (0, 0) else None),
      format_datetime = (\<lambda>t. [])\<rparr>"

definition wf_304 :: WebFeed where
  "wf_304 =
     \<lparr>status = 304, rss_d = None, web_response = None, url = ''https://example.org/feed.xml'',
      error = [], headers = Map.empty\<rparr>"

definition wf_failed :: WebFeed where
  "wf_failed =
     \<lparr>status = 500, rss_d = None, web_response = None, url = ''https://example.org/feed.xml'',
      error = ''Internal Server Error'', headers = Map.empty\<rparr>"

definition feed_3_errors :: Feed where
  "feed_3_errors = feed7\<lparr>error_count := 3\<rparr>"

definition feed_9_errors :: Feed where
  "feed_9_errors = feed7\<lparr>error_count := 9, interval := Some 10\<rparr>"






text \<open>The local variables of the detector before the fetch.\<close>

definition initial_vars :: "Feed \<Rightarrow> MonitoringStat \<Rightarrow> detector_vars" where
  "initial_vars feed stat0 =
     \<lparr>feed_var = feed, stat_var = stat0, no_error = True, new_next_check_time = None,
      feed_updated_fields = {}, effects = []\<rparr>"

text \<open>
  A check answered by 304, in the words of its \<^verbatim>\<open>finally\<close> block: the feed with its error
  count reset where that was positive; the feed in hand after the migration, which is
  called when the fetched URL differs from the link and may give another feed; the fields
  then marked, the error count where it was positive and the next check time where the
  feed in hand has one stored; the feed in the end, its next check time cleared; and the
  effects, the migration where it is called and the save where a field is marked.
\<close>

definition cached_reset :: "Feed \<Rightarrow> Feed" where
  "cached_reset feed =
     feed\<lparr>error_count := (if 0 < error_count feed then 0 else error_count feed)\<rparr>"

definition cached_in_hand :: "externals \<Rightarrow> Feed \<Rightarrow> Feed" where
  "cached_in_hand ext feed =
     (if url (fetched ext feed) = link feed then cached_reset feed
      else (case migrate_to_new_url ext (cached_reset feed) (url (fetched ext feed)) of
              None \<Rightarrow> cached_reset feed
            | Some new_feed \<Rightarrow> new_feed))"

definition cached_fields :: "externals \<Rightarrow> Feed \<Rightarrow> string set" where
  "cached_fields ext feed =
     (if 0 < error_count feed then {''error_count''} else {})
     \<union> (if next_check_time (cached_in_hand ext feed) \<noteq> None then {''next_check_time''} else {})"

definition cached_feed :: "externals \<Rightarrow> Feed \<Rightarrow> Feed" where
  "cached_feed ext feed = (cached_in_hand ext feed)\<lparr>next_check_time := None\<rparr>"

definition cached_effects :: "externals \<Rightarrow> Feed \<Rightarrow> effect list" where
  "cached_effects ext feed =
     (if url (fetched ext feed) = link feed then []
      else [Migrate_to_new_url (cached_reset feed) (url (fetched ext feed))])
     @ (if cached_fields ext feed = {} then []
        else [Save (cached_feed ext feed) (cached_fields ext feed)])"

text \<open>The feed and the marked fields after a failed fetch that is neither the 100th nor below the 10th.\<close>

definition backoff_next_check_time :: "EffectiveOptions \<Rightarrow> datetime \<Rightarrow> Feed \<Rightarrow> datetime option" where
  "backoff_next_check_time opts now feed =
     (if backoff_interval opts feed < backoff_candidate opts feed
      then Some (now + timedelta_minutes (backoff_candidate opts feed)) else None)"

definition failed_feed :: "EffectiveOptions \<Rightarrow> datetime \<Rightarrow> Feed \<Rightarrow> Feed" where
  "failed_feed opts now feed =
     feed\<lparr>error_count := error_count feed + 1,
          next_check_time := backoff_next_check_time opts now feed\<rparr>"

definition failed_fields :: "EffectiveOptions \<Rightarrow> datetime \<Rightarrow> Feed \<Rightarrow> string set" where
  "failed_fields opts now feed =
     insert ''error_count''
       (if backoff_next_check_time opts now feed \<noteq> next_check_time feed
        then {''next_check_time''} else {})"

text \<open>
  A response that moved to another URL, with collaborators whose migration gives another
  feed that has seven errors on record; and a response of RSSHub whose time to live is
  5000000000 minutes.
\<close>

definition feed8 :: Feed where
  "feed8 = feed7\<lparr>id' := 8, link := ''https://example.org/moved.xml'', error_count := 7\<rparr>"

definition wf_304_moved :: WebFeed where
  "wf_304_moved = wf_304\<lparr>url := ''https://example.org/moved.xml''\<rparr>"

definition ext_migrating :: externals where
  "ext_migrating = (ext_returning wf_304_moved)\<lparr>migrate_to_new_url := (\<lambda>feed new_url. Some feed8)\<rparr>"



section \<open>Facts about the flags\<close>

lemma TaskState_values: "EMPTY = 0" "LOCKED = 1" "IN_PROGRESS = 2" "DEFERRED = 4"
  by (simp_all add: EMPTY_def LOCKED_def IN_PROGRESS_def DEFERRED_def)

lemma or_DEFERRED_has_bit: "((s::int) OR 4) AND 4 = 4"
  by (auto simp add: bit_eq_iff bit_and_iff bit_or_iff)

lemma and_not_IN_PROGRESS_clear: "((s::int) AND NOT 2) AND 2 = 0"
proof -
  have "(s AND NOT 2) AND 2 = s AND (NOT 2 AND 2)" by (simp only: and.assoc)
  also have "\<dots> = 0" by simp
  finally show ?thesis .
qed

lemma and_erased_IN_PROGRESS: "((s::int) AND - 3) AND 2 = 0"
  using and_not_IN_PROGRESS_clear [of s] by simp

lemma resubmitted_from_init:
  "counter_tier2 (stat_resubmitted MonitoringStat_init) ''resubmitted'' = 1"
  "counter_tier2 (stat_resubmitted (stat_resubmitted MonitoringStat_init)) ''resubmitted'' = 2"
  "counter_tier2 MonitoringStat_init ''resubmitted'' = 0"
  by (simp_all add: stat_resubmitted_def stat_sum_def incr_def MonitoringStat_init_def
      counter_empty_def)

section \<open>The deferred resubmission\<close>

lemma erase_with_lock_resubmits_once:
  assumes "1 < minimal_interval opts"
    and "flag = LOCKED \<or> flag = IN_PROGRESS"
    and "task_defer_map self feed_id = DEFERRED OR flag"
  shows "erase_state_for_feed_id opts feed_id flag self
         = self\<lparr>task_defer_map := (task_defer_map self)(feed_id := LOCKED),
                timers := timers self @ [(minimal_interval opts * 60, feed_id, LOCKED)],
                queue := queue self @ [An_Id feed_id],
                stat := stat_resubmitted (stat self),
                logs := logs self
                  @ [Log DEBUG (Msg ''Resubmitted a deferred task'' [DEFERRED OR flag, feed_id] [])]\<rparr>"
  using assms
  by (auto simp add: erase_state_for_feed_id_def Let_def lock_feed_id_def put_nowait_def
      logger_def call_later_def set_state_def TaskState_values)

lemma worker_after_relock_does_not_resubmit:
  assumes "task_defer_map self feed_id = LOCKED"
  shows "erase_state_for_feed_id opts feed_id IN_PROGRESS (mark_in_progress feed_id self)
         = set_state feed_id LOCKED self"
  using assms
  by (simp add: erase_state_for_feed_id_def Let_def mark_in_progress_def set_state_def
      TaskState_values)

text \<open>
  Claim C1, evaluated where the minimal interval is one minute. Feed 7 is in progress with
  a submission deferred. The erase of \<open>IN_PROGRESS\<close> enqueues the id and counts one
  \<open>resubmitted\<close>, but \<^verbatim>\<open>_lock_feed_id\<close> returns early and the state is left at
  \<open>DEFERRED | IN_PROGRESS\<close>: it is not locked. When the worker for the resubmitted id ends,
  its erase finds the same state, enqueues the id once more and counts a second
  \<open>resubmitted\<close>, although nothing was submitted in between.
\<close>

theorem erase_without_lock_resubmits_again:
  "task_defer_map deferred_in_progress 7 = DEFERRED OR IN_PROGRESS
   \<and> queue deferred_in_progress = []
   \<and> resubmitted_count deferred_in_progress = 0
   \<and> task_defer_map after_erase 7 = DEFERRED OR IN_PROGRESS
   \<and> task_defer_map after_erase 7 \<noteq> LOCKED
   \<and> timers after_erase = []
   \<and> queue after_erase = [An_Id 7]
   \<and> resubmitted_count after_erase = 1
   \<and> task_defer_map after_next_worker 7 = DEFERRED OR IN_PROGRESS
   \<and> queue after_next_worker = [An_Id 7]
   \<and> resubmitted_count after_next_worker = 2"
proof -
  have d: "deferred_in_progress = Monitor_init\<lparr>task_defer_map := (\<lambda>feed_id. 0)(7 := 6)\<rparr>"
    by (simp add: deferred_in_progress_def set_state_def Monitor_init_def TaskState_values)
  have e: "after_erase
           = Monitor_init\<lparr>task_defer_map := (\<lambda>feed_id. 0)(7 := 6), queue := [An_Id 7],
                stat := stat_resubmitted MonitoringStat_init,
                logs := [Log DEBUG (Msg ''Resubmitted a deferred task'' [6, 7] [])]\<rparr>"
    unfolding after_erase_def d
    by (simp add: erase_state_for_feed_id_def Let_def lock_feed_id_def opts_interval_1_def
        put_nowait_def logger_def Monitor_init_def TaskState_values)
  have n: "after_next_worker
           = Monitor_init\<lparr>task_defer_map := (\<lambda>feed_id. 0)(7 := 6), queue := [An_Id 7],
                stat := stat_resubmitted (stat_resubmitted MonitoringStat_init),
                logs := [Log DEBUG (Msg ''Resubmitted a deferred task'' [6, 7] []),
                         Log DEBUG (Msg ''Resubmitted a deferred task'' [6, 7] [])]\<rparr>"
    unfolding after_next_worker_def e
    by (simp add: create_bg_task_step_def do_monitor_task_def do_monitor_task_try_def
        await_done_def mark_in_progress_def set_state_def
        erase_state_for_feed_id_def Let_def lock_feed_id_def opts_interval_1_def
        put_nowait_def logger_def Monitor_init_def TaskState_values)
  show ?thesis
    unfolding n e d
    by (simp add: Monitor_init_def resubmitted_count_def resubmitted_from_init TaskState_values)
qed

section \<open>The check answered by 304\<close>

lemma do_monitor_a_feed_fetches:
  assumes "reaches_fetch ext now feed"
  shows "do_monitor_a_feed ext opts now feed stat0
         = (case detector_try ext opts now (subs_filter ext feed) (fetched ext feed)
                   (initial_vars feed stat0) of
              (v, exit) \<Rightarrow>
                (case exit of
                   Return \<Rightarrow> (detector_finally ext (fetched ext feed) v, None)
                 | Raise e \<Rightarrow> (detector_finally ext (fetched ext feed) v, Some e)
                 | Fall_through updated_entries \<Rightarrow>
                     (record_stat stat_updated
                        ((detector_finally ext (fetched ext feed) v)
                           \<lparr>effects := effects (detector_finally ext (fetched ext feed) v)
                              @ map (Notify_all (feed_var (detector_finally ext (fetched ext feed) v))
                                       (subs_filter ext feed)) (rev updated_entries)\<rparr>),
                      None)))"
proof -
  have due: "\<not> (case next_check_time feed of None \<Rightarrow> False | Some t \<Rightarrow> now < t)"
    using assms by (cases "next_check_time feed") (simp_all add: reaches_fetch_def)
  have subs: "subs_filter ext feed \<noteq> []"
    and flood: "\<not> list_all (\<lambda>sub. user_flood_lock_locked ext (user_id sub)) (subs_filter ext feed)"
    using assms by (simp_all add: reaches_fetch_def)
  show ?thesis
    unfolding do_monitor_a_feed_def Let_def
    using due subs flood
    by (simp add: fetched_def initial_vars_def split_def)
qed

lemma detector_try_304:
  "status wf' = 304 \<Longrightarrow>
   detector_try ext opts now subs wf' v = (record_stat stat_cached v, Return)"
  by (simp add: detector_try_def)

lemma cached_check:
  assumes "reaches_fetch ext now feed" "status (fetched ext feed) = 304"
  shows "do_monitor_a_feed ext opts now feed stat0
         = (detector_finally ext (fetched ext feed)
              (record_stat stat_cached (initial_vars feed stat0)), None)"
  by (simp add: do_monitor_a_feed_fetches [OF assms(1)] detector_try_304 [OF assms(2)])

lemma finally_stat: "stat_var (detector_finally ext wf' v) = stat_var v"
proof -
  have a: "stat_var (finally_reset_error_count v) = stat_var v" for v
    by (simp add: finally_reset_error_count_def mark_field_def)
  have b: "stat_var (finally_migrate ext wf' v) = stat_var v" for v
    by (simp add: finally_migrate_def Let_def split: option.splits)
  have c: "stat_var (finally_no_error ext wf' v) = stat_var v" for v
    by (simp add: finally_no_error_def a b)
  have d: "stat_var (finally_next_check_time v) = stat_var v" for v
    by (simp add: finally_next_check_time_def mark_field_def)
  have e: "stat_var (finally_save v) = stat_var v" for v
    by (simp add: finally_save_def)
  show ?thesis by (simp add: detector_finally_def a b c d e)
qed

lemma finally_cached:
  "detector_finally ext (fetched ext feed) (record_stat stat_cached (initial_vars feed stat0))
   = \<lparr>feed_var = cached_feed ext feed, stat_var = stat_cached stat0, no_error = True,
      new_next_check_time = None, feed_updated_fields = cached_fields ext feed,
      effects = cached_effects ext feed\<rparr>"
proof -
  define v1 where "v1 = finally_reset_error_count (record_stat stat_cached (initial_vars feed stat0))"
  have v1: "v1 = \<lparr>feed_var = cached_reset feed, stat_var = stat_cached stat0, no_error = True,
                   new_next_check_time = None,
                   feed_updated_fields = (if 0 < error_count feed then {''error_count''} else {}),
                   effects = []\<rparr>"
    by (simp add: v1_def finally_reset_error_count_def record_stat_def initial_vars_def
        mark_field_def cached_reset_def)
  have l: "link (cached_reset feed) = link feed"
    by (simp add: cached_reset_def)
  define v2 where "v2 = finally_migrate ext (fetched ext feed) v1"
  have v2: "v2 = v1\<lparr>feed_var := cached_in_hand ext feed,
                      effects := (if url (fetched ext feed) = link feed then []
                                  else [Migrate_to_new_url (cached_reset feed)
                                          (url (fetched ext feed))])\<rparr>"
  proof (cases "url (fetched ext feed) = link feed")
    case True
    then show ?thesis
      by (simp add: v2_def finally_migrate_def v1 l cached_in_hand_def)
  next
    case moved: False
    show ?thesis
    proof (cases "migrate_to_new_url ext (cached_reset feed) (url (fetched ext feed))")
      case None
      then show ?thesis
        using moved by (simp add: v2_def finally_migrate_def Let_def v1 l cached_in_hand_def)
    next
      case (Some new_feed)
      then show ?thesis
        using moved by (simp add: v2_def finally_migrate_def Let_def v1 l cached_in_hand_def)
    qed
  qed
  have n: "finally_no_error ext (fetched ext feed)
             (record_stat stat_cached (initial_vars feed stat0)) = v2"
    by (simp add: finally_no_error_def v2_def v1_def record_stat_def initial_vars_def)
  define v3 where "v3 = finally_next_check_time v2"
  have v3: "v3 = v2\<lparr>feed_var := cached_feed ext feed, feed_updated_fields := cached_fields ext feed\<rparr>"
    by (cases "next_check_time (cached_in_hand ext feed)")
       (simp_all add: v3_def finally_next_check_time_def v2 v1 mark_field_def cached_feed_def
          cached_fields_def)
  have "detector_finally ext (fetched ext feed)
          (record_stat stat_cached (initial_vars feed stat0)) = finally_save v3"
    by (simp add: detector_finally_def n v3_def)
  also have "\<dots> = \<lparr>feed_var = cached_feed ext feed, stat_var = stat_cached stat0, no_error = True,
      new_next_check_time = None, feed_updated_fields = cached_fields ext feed,
      effects = cached_effects ext feed\<rparr>"
    by (cases "cached_fields ext feed = {}")
       (simp_all add: finally_save_def v3 v2 v1 cached_effects_def)
  finally show ?thesis .
qed

lemma cached_fields_empty:
  "(cached_fields ext feed = {})
   = (error_count feed \<le> 0 \<and> next_check_time (cached_in_hand ext feed) = None)"
  by (auto simp add: cached_fields_def)

text \<open>
  Claim C2, amended. A check that gets as far as the fetch and is answered by 304 counts
  one \<open>cached\<close> outcome and raises nothing, but its \<^verbatim>\<open>finally\<close> block still runs: the error
  count is reset to 0 where it was positive; where the fetched URL differs from the link,
  \<^verbatim>\<open>migrate_to_new_url\<close> is called and the feed it gives, if any, is the feed in hand from
  then on; a next check time stored on the feed in hand is cleared; and the feed in hand
  is saved with exactly the fields so marked, or not saved when none is. Where the fetched
  URL is the feed's link, the feed keeps its link, title, etag, modification time and
  entry hashes. No field is marked, and so nothing saved and the feed in hand left as it
  is, exactly when the error count was not positive and the feed in hand has no next check
  time stored.
\<close>

theorem cached_check_runs_finally:
  "reaches_fetch ext now feed \<and> status (fetched ext feed) = 304 \<longrightarrow>
     do_monitor_a_feed ext opts now feed stat0
       = (\<lparr>feed_var = cached_feed ext feed, stat_var = stat_cached stat0, no_error = True,
           new_next_check_time = None, feed_updated_fields = cached_fields ext feed,
           effects = cached_effects ext feed\<rparr>, None)
     \<and> (url (fetched ext feed) = link feed \<longrightarrow>
          cached_feed ext feed
            = feed\<lparr>error_count := (if 0 < error_count feed then 0 else error_count feed),
                   next_check_time := None\<rparr>)
     \<and> (cached_fields ext feed = {})
         = (error_count feed \<le> 0 \<and> next_check_time (cached_in_hand ext feed) = None)
     \<and> (cached_fields ext feed = {} \<longrightarrow>
          cached_feed ext feed = cached_in_hand ext feed \<and> cached_reset feed = feed
          \<and> cached_effects ext feed
              = (if url (fetched ext feed) = link feed then []
                 else [Migrate_to_new_url feed (url (fetched ext feed))]))"
proof (intro impI conjI)
  assume a: "reaches_fetch ext now feed \<and> status (fetched ext feed) = 304"
  then have r: "reaches_fetch ext now feed" and s: "status (fetched ext feed) = 304"
    by simp_all
  show "do_monitor_a_feed ext opts now feed stat0
       = (\<lparr>feed_var = cached_feed ext feed, stat_var = stat_cached stat0, no_error = True,
           new_next_check_time = None, feed_updated_fields = cached_fields ext feed,
           effects = cached_effects ext feed\<rparr>, None)"
    by (simp add: cached_check [OF r s] finally_cached)
  show "(cached_fields ext feed = {})
         = (error_count feed \<le> 0 \<and> next_check_time (cached_in_hand ext feed) = None)"
    by (rule cached_fields_empty)
  {
    assume "url (fetched ext feed) = link feed"
    then show "cached_feed ext feed
            = feed\<lparr>error_count := (if 0 < error_count feed then 0 else error_count feed),
                   next_check_time := None\<rparr>"
      by (simp add: cached_feed_def cached_in_hand_def cached_reset_def)
  }
  {
    assume e: "cached_fields ext feed = {}"
    then have ec: "error_count feed \<le> 0"
      and nct: "next_check_time (cached_in_hand ext feed) = None"
      by (simp_all add: cached_fields_empty)
    show "cached_feed ext feed = cached_in_hand ext feed"
      using nct by (simp add: cached_feed_def)
    show rs: "cached_reset feed = feed"
      using ec by (simp add: cached_reset_def)
    show "cached_effects ext feed
              = (if url (fetched ext feed) = link feed then []
                 else [Migrate_to_new_url feed (url (fetched ext feed))])"
      by (simp add: cached_effects_def e rs)
  }
qed

lemma scenario_304:
  "reaches_fetch (ext_returning wf_304) 0 feed_3_errors"
  "status (fetched (ext_returning wf_304) feed_3_errors) = 304"
  "url (fetched (ext_returning wf_304) feed_3_errors) = link feed_3_errors"
  "cached_fields (ext_returning wf_304) feed_3_errors = {''error_count''}"
  "cached_feed (ext_returning wf_304) feed_3_errors = feed7"
  "cached_effects (ext_returning wf_304) feed_3_errors = [Save feed7 {''error_count''}]"
  "error_count feed_3_errors = 3"
proof -
  show r: "reaches_fetch (ext_returning wf_304) 0 feed_3_errors"
    by (simp add: reaches_fetch_def ext_returning_def feed_3_errors_def feed7_def sub1_def)
  show s: "status (fetched (ext_returning wf_304) feed_3_errors) = 304"
    by (simp add: fetched_def ext_returning_def wf_304_def)
  show u: "url (fetched (ext_returning wf_304) feed_3_errors) = link feed_3_errors"
    by (simp add: fetched_def ext_returning_def wf_304_def feed_3_errors_def feed7_def)
  show e: "error_count feed_3_errors = 3"
    by (simp add: feed_3_errors_def)
  have h: "cached_in_hand (ext_returning wf_304) feed_3_errors = feed7"
    by (simp add: cached_in_hand_def u cached_reset_def e) (simp add: feed_3_errors_def feed7_def)
  have n: "next_check_time feed7 = None" by (simp add: feed7_def)
  show f: "cached_fields (ext_returning wf_304) feed_3_errors = {''error_count''}"
    by (simp add: cached_fields_def h e n)
  show c: "cached_feed (ext_returning wf_304) feed_3_errors = feed7"
    by (simp add: cached_feed_def h) (simp add: feed7_def)
  show "cached_effects (ext_returning wf_304) feed_3_errors = [Save feed7 {''error_count''}]"
    by (simp add: cached_effects_def u f c)
qed

lemma scenario_304_moved:
  "reaches_fetch ext_migrating 0 feed_3_errors"
  "status (fetched ext_migrating feed_3_errors) = 304"
  "cached_feed ext_migrating feed_3_errors = feed8"
  "cached_effects ext_migrating feed_3_errors
     = [Migrate_to_new_url feed7 ''https://example.org/moved.xml'', Save feed8 {''error_count''}]"
proof -
  show "reaches_fetch ext_migrating 0 feed_3_errors"
    by (simp add: reaches_fetch_def ext_migrating_def ext_returning_def feed_3_errors_def
        feed7_def sub1_def)
  show "status (fetched ext_migrating feed_3_errors) = 304"
    by (simp add: fetched_def ext_migrating_def ext_returning_def wf_304_moved_def wf_304_def)
  have u: "url (fetched ext_migrating feed_3_errors) = ''https://example.org/moved.xml''"
    by (simp add: fetched_def ext_migrating_def ext_returning_def wf_304_moved_def)
  have l: "link feed_3_errors = ''https://example.org/feed.xml''"
    by (simp add: feed_3_errors_def feed7_def)
  have e: "error_count feed_3_errors = 3"
    by (simp add: feed_3_errors_def)
  have r: "cached_reset feed_3_errors = feed7"
    by (simp add: cached_reset_def e) (simp add: feed_3_errors_def feed7_def)
  have h: "cached_in_hand ext_migrating feed_3_errors = feed8"
    by (simp add: cached_in_hand_def u l) (simp add: ext_migrating_def)
  have n: "next_check_time feed8 = None" by (simp add: feed8_def feed7_def)
  have f: "cached_fields ext_migrating feed_3_errors = {''error_count''}"
    by (simp add: cached_fields_def h e n)
  show c: "cached_feed ext_migrating feed_3_errors = feed8"
    by (simp add: cached_feed_def h) (simp add: feed8_def feed7_def)
  show "cached_effects ext_migrating feed_3_errors
     = [Migrate_to_new_url feed7 ''https://example.org/moved.xml'', Save feed8 {''error_count''}]"
    by (simp add: cached_effects_def u l f c r)
qed

text \<open>
  The statement above for feed 7 with three errors on record. Answered by 304 at its own
  link, the feed comes out with no errors and is saved with the field \<^verbatim>\<open>error_count\<close>.
  Answered by 304 at another URL, with a migration that gives feed 8, it is feed 8 that is
  saved with the field \<^verbatim>\<open>error_count\<close>, its own seven errors still on record.
\<close>

theorem cached_check_runs_finally_witness:
  "reaches_fetch (ext_returning wf_304) 0 feed_3_errors
   \<and> status (fetched (ext_returning wf_304) feed_3_errors) = 304
   \<and> url (fetched (ext_returning wf_304) feed_3_errors) = link feed_3_errors
   \<and> stat_var (fst (do_monitor_a_feed (ext_returning wf_304) opts_interval_5 0 feed_3_errors
        MonitoringStat_init)) = stat_cached MonitoringStat_init
   \<and> feed_var (fst (do_monitor_a_feed (ext_returning wf_304) opts_interval_5 0 feed_3_errors
        MonitoringStat_init)) = feed7
   \<and> effects (fst (do_monitor_a_feed (ext_returning wf_304) opts_interval_5 0 feed_3_errors
        MonitoringStat_init)) = [Save feed7 {''error_count''}]
   \<and> reaches_fetch ext_migrating 0 feed_3_errors
   \<and> status (fetched ext_migrating feed_3_errors) = 304
   \<and> feed_var (fst (do_monitor_a_feed ext_migrating opts_interval_5 0 feed_3_errors
        MonitoringStat_init)) = feed8
   \<and> error_count feed8 = 7
   \<and> effects (fst (do_monitor_a_feed ext_migrating opts_interval_5 0 feed_3_errors
        MonitoringStat_init))
       = [Migrate_to_new_url feed7 ''https://example.org/moved.xml'', Save feed8 {''error_count''}]"
proof -
  have a: "reaches_fetch (ext_returning wf_304) 0 feed_3_errors
           \<and> status (fetched (ext_returning wf_304) feed_3_errors) = 304"
    by (simp add: scenario_304)
  note w = cached_check_runs_finally
      [where ext = "ext_returning wf_304" and now = 0 and feed = feed_3_errors
         and opts = opts_interval_5 and ?stat0.0 = MonitoringStat_init, THEN mp, OF a,
       THEN conjunct1]
  have b: "reaches_fetch ext_migrating 0 feed_3_errors
           \<and> status (fetched ext_migrating feed_3_errors) = 304"
    by (simp add: scenario_304_moved)
  note v = cached_check_runs_finally
      [where ext = ext_migrating and now = 0 and feed = feed_3_errors
         and opts = opts_interval_5 and ?stat0.0 = MonitoringStat_init, THEN mp, OF b,
       THEN conjunct1]
  have e8: "error_count feed8 = 7" by (simp add: feed8_def)
  show ?thesis
    unfolding w v using a b by (simp add: scenario_304 scenario_304_moved e8)
qed

text \<open>
  Claim C2 as it is written fails: for a feed with three errors on record, a check
  answered by 304 sets the error count to 0 and issues a save.
\<close>

theorem cached_check_counterexample:
  "status (fetched (ext_returning wf_304) feed_3_errors) = 304
   \<and> error_count feed_3_errors = 3
   \<and> error_count (feed_var (fst (do_monitor_a_feed (ext_returning wf_304) opts_interval_5 0
        feed_3_errors MonitoringStat_init))) = 0
   \<and> effects (fst (do_monitor_a_feed (ext_returning wf_304) opts_interval_5 0 feed_3_errors
        MonitoringStat_init)) = [Save feed7 {''error_count''}]"
proof -
  have c: "do_monitor_a_feed (ext_returning wf_304) opts_interval_5 0 feed_3_errors
             MonitoringStat_init
           = (detector_finally (ext_returning wf_304) (fetched (ext_returning wf_304) feed_3_errors)
                (record_stat stat_cached (initial_vars feed_3_errors MonitoringStat_init)), None)"
    by (rule cached_check) (simp_all add: scenario_304)
  have f: "error_count feed7 = 0" by (simp add: feed7_def)
  show ?thesis
    unfolding c
    by (simp add: finally_cached scenario_304 f)
qed

section \<open>The blocked-user handler\<close>

lemma blocked_failure_below_5:
  "\<not> user_unsub_all_lock_bucket s u \<Longrightarrow> user_blocked_counter s u < 5 \<Longrightarrow>
   blocked_failure u e s
     = s\<lparr>user_blocked_counter := (user_blocked_counter s)(u := user_blocked_counter s u + 1)\<rparr>"
  by (simp add: blocked_failure_def send_def locked_unsub_all_and_leave_chat_def)

lemma blocked_failures_count:
  "\<not> user_unsub_all_lock_bucket s u \<Longrightarrow> user_blocked_counter s u + int n \<le> 5 \<Longrightarrow>
   (blocked_failure u e ^^ n) s
     = s\<lparr>user_blocked_counter := (user_blocked_counter s)(u := user_blocked_counter s u + int n)\<rparr>"
proof (induction n)
  case 0
  then show ?case by (simp add: fun_upd_idem)
next
  case (Suc n)
  have ih: "(blocked_failure u e ^^ n) s
     = s\<lparr>user_blocked_counter := (user_blocked_counter s)(u := user_blocked_counter s u + int n)\<rparr>"
    using Suc.prems by (intro Suc.IH) simp_all
  have "(blocked_failure u e ^^ Suc n) s = blocked_failure u e ((blocked_failure u e ^^ n) s)"
    by simp
  also have "\<dots> = blocked_failure u e
      (s\<lparr>user_blocked_counter := (user_blocked_counter s)(u := user_blocked_counter s u + int n)\<rparr>)"
    by (simp only: ih)
  also have "\<dots> = s\<lparr>user_blocked_counter :=
                       (user_blocked_counter s)(u := user_blocked_counter s u + int (Suc n))\<rparr>"
    using Suc.prems by (simp add: blocked_failure_below_5 add.commute add.left_commute)
  finally show ?case .
qed

lemma escalation_at_5:
  "\<not> user_unsub_all_lock_bucket s u \<Longrightarrow> 5 \<le> user_blocked_counter s u \<Longrightarrow>
   locked_unsub_all_and_leave_chat u e s
     = (s\<lparr>user_unsub_all_lock_bucket := (user_unsub_all_lock_bucket s)(u := True),
           user_blocked_counter := (user_blocked_counter s)(u := 0),
           delivery_logs := delivery_logs s @ [Log ERROR (Msg ''User blocked'' [u] e)],
           unsub_calls := unsub_calls s @ [u]\<rparr>, Awaiting_unsub)"
  by (simp add: locked_unsub_all_and_leave_chat_def)

lemma lock_held_returns:
  "user_unsub_all_lock_bucket s u \<Longrightarrow> locked_unsub_all_and_leave_chat u e s = (s, Finished)"
  by (simp add: locked_unsub_all_and_leave_chat_def)

text \<open>
  Claim C3, amended. For a user whose lock is free and whose counter reads \<open>c\<close>, at most 5:
  any \<open>n\<close> blocked-style failures in a row that keep the counter within 5 are only counted,
  whatever their number so far. The handler's run that finds the counter at 5 takes the
  lock, deletes the counter entry, logs the user as blocked and calls
  \<^verbatim>\<open>unsub_all_and_leave_chat\<close> for that user once; a run that finds the lock held while
  that call is awaited returns with the state untouched. So after \<open>5 - c\<close> failures and one
  more the user has been unsubscribed exactly once, the counter entry is gone and the lock
  is free again; from a counter of 0 that is the sixth failure. The successful send of a
  post resets the counter; the successful send of a plain string leaves it as it is.
\<close>

theorem blocked_user_unsubscribed_when_counter_at_five:
  "\<not> user_unsub_all_lock_bucket s u \<and> user_blocked_counter s u = c \<and> c + int n \<le> 5 \<longrightarrow>
     (blocked_failure u e ^^ n) s
       = s\<lparr>user_blocked_counter := (user_blocked_counter s)(u := c + int n)\<rparr>
     \<and> unsub_calls ((blocked_failure u e ^^ n) s) = unsub_calls s
     \<and> (blocked_failure u e ^^ nat (5 - c)) s
         = s\<lparr>user_blocked_counter := (user_blocked_counter s)(u := 5)\<rparr>
     \<and> locked_unsub_all_and_leave_chat u e ((blocked_failure u e ^^ nat (5 - c)) s)
         = (s\<lparr>user_unsub_all_lock_bucket := (user_unsub_all_lock_bucket s)(u := True),
               user_blocked_counter := (user_blocked_counter s)(u := 0),
               delivery_logs := delivery_logs s @ [Log ERROR (Msg ''User blocked'' [u] e)],
               unsub_calls := unsub_calls s @ [u]\<rparr>, Awaiting_unsub)
     \<and> locked_unsub_all_and_leave_chat u e'
          (fst (locked_unsub_all_and_leave_chat u e ((blocked_failure u e ^^ nat (5 - c)) s)))
         = (fst (locked_unsub_all_and_leave_chat u e ((blocked_failure u e ^^ nat (5 - c)) s)),
            Finished)
     \<and> unsub_calls ((blocked_failure u e ^^ Suc (nat (5 - c))) s) = unsub_calls s @ [u]
     \<and> user_blocked_counter ((blocked_failure u e ^^ Suc (nat (5 - c))) s) u = 0
     \<and> \<not> user_unsub_all_lock_bucket ((blocked_failure u e ^^ Suc (nat (5 - c))) s) u
     \<and> send u Sent_string s = (s, Finished)
     \<and> send u Sent_post s
         = (s\<lparr>user_blocked_counter := (user_blocked_counter s)(u := 0)\<rparr>, Finished)"
proof (intro impI)
  assume a: "\<not> user_unsub_all_lock_bucket s u \<and> user_blocked_counter s u = c \<and> c + int n \<le> 5"
  then have free: "\<not> user_unsub_all_lock_bucket s u" and c: "user_blocked_counter s u = c"
    and n: "c + int n \<le> 5"
    by simp_all
  from n have c5: "c \<le> 5" by simp
  have some: "(blocked_failure u e ^^ n) s
       = s\<lparr>user_blocked_counter := (user_blocked_counter s)(u := c + int n)\<rparr>"
    using blocked_failures_count [of s u n e] free n by (simp add: c)
  have c1: "unsub_calls ((blocked_failure u e ^^ n) s) = unsub_calls s"
    by (simp add: some)
  have five: "(blocked_failure u e ^^ nat (5 - c)) s
              = s\<lparr>user_blocked_counter := (user_blocked_counter s)(u := 5)\<rparr>"
    using blocked_failures_count [of s u "nat (5 - c)" e] free c5 by (simp add: c)
  have sixth: "locked_unsub_all_and_leave_chat u e ((blocked_failure u e ^^ nat (5 - c)) s)
         = (s\<lparr>user_unsub_all_lock_bucket := (user_unsub_all_lock_bucket s)(u := True),
               user_blocked_counter := (user_blocked_counter s)(u := 0),
               delivery_logs := delivery_logs s @ [Log ERROR (Msg ''User blocked'' [u] e)],
               unsub_calls := unsub_calls s @ [u]\<rparr>, Awaiting_unsub)"
    unfolding five using free by (simp add: escalation_at_5)
  have held: "locked_unsub_all_and_leave_chat u e'
          (fst (locked_unsub_all_and_leave_chat u e ((blocked_failure u e ^^ nat (5 - c)) s)))
         = (fst (locked_unsub_all_and_leave_chat u e ((blocked_failure u e ^^ nat (5 - c)) s)),
            Finished)"
    unfolding sixth by (simp add: lock_held_returns)
  have six: "(blocked_failure u e ^^ Suc (nat (5 - c))) s
             = blocked_failure u e ((blocked_failure u e ^^ nat (5 - c)) s)"
    by simp
  have after: "(blocked_failure u e ^^ Suc (nat (5 - c))) s
       = unsub_ended u
           (s\<lparr>user_unsub_all_lock_bucket := (user_unsub_all_lock_bucket s)(u := True),
               user_blocked_counter := (user_blocked_counter s)(u := 0),
               delivery_logs := delivery_logs s @ [Log ERROR (Msg ''User blocked'' [u] e)],
               unsub_calls := unsub_calls s @ [u]\<rparr>)"
    unfolding six by (simp add: blocked_failure_def send_def sixth)
  have c5': "unsub_calls ((blocked_failure u e ^^ Suc (nat (5 - c))) s) = unsub_calls s @ [u]"
    unfolding after by (simp add: unsub_ended_def)
  have c6: "user_blocked_counter ((blocked_failure u e ^^ Suc (nat (5 - c))) s) u = 0"
    unfolding after by (simp add: unsub_ended_def)
  have c7: "\<not> user_unsub_all_lock_bucket ((blocked_failure u e ^^ Suc (nat (5 - c))) s) u"
    unfolding after by (simp add: unsub_ended_def)
  have c8: "send u Sent_string s = (s, Finished)"
    by (simp add: send_def)
  have c9: "send u Sent_post s
         = (s\<lparr>user_blocked_counter := (user_blocked_counter s)(u := 0)\<rparr>, Finished)"
    by (simp add: send_def fun_upd_idem)
  from some c1 five sixth held c5' c6 c7 c8 c9
  show "(blocked_failure u e ^^ n) s
       = s\<lparr>user_blocked_counter := (user_blocked_counter s)(u := c + int n)\<rparr>
     \<and> unsub_calls ((blocked_failure u e ^^ n) s) = unsub_calls s
     \<and> (blocked_failure u e ^^ nat (5 - c)) s
         = s\<lparr>user_blocked_counter := (user_blocked_counter s)(u := 5)\<rparr>
     \<and> locked_unsub_all_and_leave_chat u e ((blocked_failure u e ^^ nat (5 - c)) s)
         = (s\<lparr>user_unsub_all_lock_bucket := (user_unsub_all_lock_bucket s)(u := True),
               user_blocked_counter := (user_blocked_counter s)(u := 0),
               delivery_logs := delivery_logs s @ [Log ERROR (Msg ''User blocked'' [u] e)],
               unsub_calls := unsub_calls s @ [u]\<rparr>, Awaiting_unsub)
     \<and> locked_unsub_all_and_leave_chat u e'
          (fst (locked_unsub_all_and_leave_chat u e ((blocked_failure u e ^^ nat (5 - c)) s)))
         = (fst (locked_unsub_all_and_leave_chat u e ((blocked_failure u e ^^ nat (5 - c)) s)),
            Finished)
     \<and> unsub_calls ((blocked_failure u e ^^ Suc (nat (5 - c))) s) = unsub_calls s @ [u]
     \<and> user_blocked_counter ((blocked_failure u e ^^ Suc (nat (5 - c))) s) u = 0
     \<and> \<not> user_unsub_all_lock_bucket ((blocked_failure u e ^^ Suc (nat (5 - c))) s) u
     \<and> send u Sent_string s = (s, Finished)
     \<and> send u Sent_post s
         = (s\<lparr>user_blocked_counter := (user_blocked_counter s)(u := 0)\<rparr>, Finished)"
    by blast
qed

text \<open>
  The statement above for user 6: on the initial delivery state, where five failures are
  counted and the sixth unsubscribes; and after three failures and the send of a plain
  string, where the counter still reads 3 and the third further failure unsubscribes.
\<close>

theorem blocked_user_unsubscribed_when_counter_at_five_witness:
  "\<not> user_unsub_all_lock_bucket Delivery_init 6
   \<and> user_blocked_counter Delivery_init 6 = 0
   \<and> unsub_calls ((blocked_failure 6 ''UserIsBlockedError'' ^^ 5) Delivery_init) = []
   \<and> unsub_calls ((blocked_failure 6 ''UserIsBlockedError'' ^^ 6) Delivery_init) = [6]
   \<and> user_blocked_counter ((blocked_failure 6 ''UserIsBlockedError'' ^^ 6) Delivery_init) 6 = 0
   \<and> \<not> user_unsub_all_lock_bucket three_failures_then_string 6
   \<and> user_blocked_counter three_failures_then_string 6 = 3
   \<and> unsub_calls three_failures_then_string = []
   \<and> unsub_calls ((blocked_failure 6 ''UserIsBlockedError'' ^^ 2) three_failures_then_string) = []
   \<and> unsub_calls ((blocked_failure 6 ''UserIsBlockedError'' ^^ 3) three_failures_then_string)
       = [6]"
proof -
  have a: "\<not> user_unsub_all_lock_bucket Delivery_init 6
           \<and> user_blocked_counter Delivery_init 6 = 0 \<and> 0 + int 5 \<le> 5"
    by (simp add: Delivery_init_def)
  have u: "unsub_calls Delivery_init = []" by (simp add: Delivery_init_def)
  note w = blocked_user_unsubscribed_when_counter_at_five
      [where s = Delivery_init and u = 6 and e = "''UserIsBlockedError''" and c = 0 and n = 5,
       THEN mp, OF a]
  have n6: "Suc (nat (5 - 0)) = 6" by simp
  have w5: "unsub_calls ((blocked_failure 6 ''UserIsBlockedError'' ^^ 5) Delivery_init) = []"
    using w u by simp
  have w6: "unsub_calls ((blocked_failure 6 ''UserIsBlockedError'' ^^ 6) Delivery_init) = [6]
            \<and> user_blocked_counter ((blocked_failure 6 ''UserIsBlockedError'' ^^ 6) Delivery_init) 6 = 0"
    using w u unfolding n6 by simp
  have three: "(blocked_failure 6 ''UserIsBlockedError'' ^^ 3) Delivery_init
               = Delivery_init\<lparr>user_blocked_counter := (user_blocked_counter Delivery_init)(6 := 3)\<rparr>"
    using blocked_user_unsubscribed_when_counter_at_five
      [where s = Delivery_init and u = 6 and e = "''UserIsBlockedError''" and c = 0 and n = 3]
    by (simp add: Delivery_init_def)
  have t: "three_failures_then_string
           = Delivery_init\<lparr>user_blocked_counter := (user_blocked_counter Delivery_init)(6 := 3)\<rparr>"
    by (simp add: three_failures_then_string_def three send_def)
  have b: "\<not> user_unsub_all_lock_bucket three_failures_then_string 6
           \<and> user_blocked_counter three_failures_then_string 6 = 3 \<and> 3 + int 2 \<le> 5"
    by (simp add: t Delivery_init_def)
  have ut: "unsub_calls three_failures_then_string = []"
    by (simp add: t Delivery_init_def)
  note v = blocked_user_unsubscribed_when_counter_at_five
      [where s = three_failures_then_string and u = 6 and e = "''UserIsBlockedError''"
         and c = 3 and n = 2, THEN mp, OF b]
  have n3: "Suc (nat (5 - 3)) = 3" by simp
  have v2: "unsub_calls ((blocked_failure 6 ''UserIsBlockedError'' ^^ 2) three_failures_then_string) = []"
    using v ut by simp
  have v3: "unsub_calls ((blocked_failure 6 ''UserIsBlockedError'' ^^ 3) three_failures_then_string)
            = [6]"
    using v ut unfolding n3 by simp
  from a b w5 w6 ut v2 v3 show ?thesis by simp
qed

text \<open>
  Claim C3 as it is written fails: after exactly five blocked-style failures in a row for
  user 6, \<^verbatim>\<open>unsub_all_and_leave_chat\<close> has not been called and the counter entry is still
  there, reading 5.
\<close>

theorem blocked_user_counterexample:
  "unsub_calls ((blocked_failure 6 ''UserIsBlockedError'' ^^ 5) Delivery_init) = []
   \<and> user_blocked_counter ((blocked_failure 6 ''UserIsBlockedError'' ^^ 5) Delivery_init) 6 = 5"
  by (simp add: numeral_eq_Suc blocked_failure_def send_def locked_unsub_all_and_leave_chat_def
      Delivery_init_def)

section \<open>Submission while a task state is set\<close>

lemma deferred_tag_count:
  "counter_tier2 (stat_deferred s) ''deferred'' = counter_tier2 s ''deferred'' + 1"
  by (simp add: stat_deferred_def stat_sum_def incr_def)

text \<open>
  Claim C4, amended. When \<^verbatim>\<open>submit_feed\<close> finds a task state that is neither empty nor
  exactly \<open>DEFERRED\<close>, it leaves the queue and the timers alone, sets the \<open>DEFERRED\<close> bit
  on top of the flags already there and counts one \<open>deferred\<close>. When the state is exactly
  \<open>DEFERRED\<close>, it falls through: the feed is appended to the queue, nothing is counted,
  and where the minimal interval exceeds one minute the state becomes \<open>LOCKED\<close>.
\<close>

theorem submit_feed_defers_unless_only_deferred:
  "(task_defer_map self (id' feed) \<noteq> 0 \<and> task_defer_map self (id' feed) \<noteq> DEFERRED \<longrightarrow>
      queue (submit_feed opts feed self) = queue self
      \<and> task_defer_map (submit_feed opts feed self) (id' feed)
          = task_defer_map self (id' feed) OR DEFERRED
      \<and> task_defer_map (submit_feed opts feed self) (id' feed) AND DEFERRED = DEFERRED
      \<and> stat (submit_feed opts feed self) = stat_deferred (stat self)
      \<and> deferred_count (submit_feed opts feed self) = deferred_count self + 1
      \<and> timers (submit_feed opts feed self) = timers self)
   \<and> (task_defer_map self (id' feed) = DEFERRED \<longrightarrow>
      queue (submit_feed opts feed self) = queue self @ [A_Feed feed]
      \<and> stat (submit_feed opts feed self) = stat self
      \<and> (1 < minimal_interval opts \<longrightarrow>
           task_defer_map (submit_feed opts feed self) (id' feed) = LOCKED))"
  by (simp add: submit_feed_def Let_def logger_def set_state_def put_nowait_def lock_feed_id_def
      call_later_def deferred_count_def deferred_tag_count TaskState_values or_DEFERRED_has_bit)

text \<open>
  The statement above at feed 7 with a minimal interval of five minutes, once in progress
  and once with only \<open>DEFERRED\<close> set.
\<close>

theorem submit_feed_defers_unless_only_deferred_witness:
  "queue (submit_feed opts_interval_5 feed7 (set_state 7 IN_PROGRESS Monitor_init)) = []
   \<and> task_defer_map (submit_feed opts_interval_5 feed7 (set_state 7 IN_PROGRESS Monitor_init)) 7 = 6
   \<and> deferred_count (submit_feed opts_interval_5 feed7 (set_state 7 IN_PROGRESS Monitor_init)) = 1
   \<and> queue (submit_feed opts_interval_5 feed7 (set_state 7 DEFERRED Monitor_init)) = [A_Feed feed7]
   \<and> task_defer_map (submit_feed opts_interval_5 feed7 (set_state 7 DEFERRED Monitor_init)) 7 = 1"
proof -
  have i: "id' feed7 = 7" by (simp add: feed7_def)
  have a: "task_defer_map (set_state 7 IN_PROGRESS Monitor_init) (id' feed7) \<noteq> 0
           \<and> task_defer_map (set_state 7 IN_PROGRESS Monitor_init) (id' feed7) \<noteq> DEFERRED"
    by (simp add: i set_state_def TaskState_values)
  have a': "task_defer_map (set_state 7 IN_PROGRESS Monitor_init) 7 OR DEFERRED = 6"
    by (simp add: set_state_def TaskState_values)
  have b: "task_defer_map (set_state 7 DEFERRED Monitor_init) (id' feed7) = DEFERRED"
    by (simp add: i set_state_def)
  have q: "queue (set_state 7 t Monitor_init) = []" for t
    by (simp add: set_state_def Monitor_init_def)
  have d: "deferred_count (set_state 7 t Monitor_init) = 0" for t
    by (simp add: set_state_def Monitor_init_def deferred_count_def MonitoringStat_init_def
        counter_empty_def)
  have m: "1 < minimal_interval opts_interval_5" by (simp add: opts_interval_5_def)
  note first = submit_feed_defers_unless_only_deferred
        [where self = "set_state 7 IN_PROGRESS Monitor_init" and feed = feed7
           and opts = opts_interval_5, THEN conjunct1, THEN mp, OF a]
  note second = submit_feed_defers_unless_only_deferred
        [where self = "set_state 7 DEFERRED Monitor_init" and feed = feed7
           and opts = opts_interval_5, THEN conjunct2, THEN mp, OF b]
  show ?thesis
    using first second m by (simp add: i a' q d LOCKED_def)
qed

text \<open>
  Claim C4 as it is written fails where the state is exactly \<open>DEFERRED\<close>: the queue
  gains the feed, the \<open>deferred\<close> counter stays at 0 and the \<open>DEFERRED\<close> bit is gone.
\<close>

theorem submit_feed_counterexample:
  "task_defer_map (set_state 7 DEFERRED Monitor_init) (id' feed7) = DEFERRED
   \<and> queue (set_state 7 DEFERRED Monitor_init) = []
   \<and> queue (submit_feed opts_interval_5 feed7 (set_state 7 DEFERRED Monitor_init)) = [A_Feed feed7]
   \<and> deferred_count (submit_feed opts_interval_5 feed7 (set_state 7 DEFERRED Monitor_init)) = 0
   \<and> task_defer_map (submit_feed opts_interval_5 feed7 (set_state 7 DEFERRED Monitor_init)) 7
       AND DEFERRED = 0"
  by (simp add: submit_feed_def Let_def logger_def set_state_def put_nowait_def lock_feed_id_def
      call_later_def deferred_count_def TaskState_values feed7_def opts_interval_5_def
      Monitor_init_def MonitoringStat_init_def counter_empty_def)

section \<open>The worker and its classification\<close>

lemma do_monitor_task_try_eq:
  "do_monitor_task_try opts feed_id l w self
     = (erase_state_for_feed_id opts feed_id IN_PROGRESS (classify l w self), uncaught w)"
proof (cases w)
  case (Wait_raised e)
  then show ?thesis by (cases e) (simp_all add: do_monitor_task_try_def)
next
  case (Pending r)
  show ?thesis
  proof (cases r)
    case Returned
    with Pending show ?thesis by (simp add: do_monitor_task_try_def await_pending_def)
  next
    case (Raised e)
    with Pending show ?thesis
      by (cases e) (simp_all add: do_monitor_task_try_def await_pending_def)
  qed
next
  case (Done r)
  show ?thesis
  proof (cases r)
    case Returned
    with Done show ?thesis by (simp add: do_monitor_task_try_def await_done_def)
  next
    case (Raised e)
    with Done show ?thesis
      by (cases e) (simp_all add: do_monitor_task_try_def await_done_def)
  qed
qed

lemma do_monitor_task_found:
  "resolve get_or_none feed = Inr (Some f) \<Longrightarrow>
   do_monitor_task opts get_or_none during_lookup during_wait w feed self
     = do_monitor_task_try opts (feed_id_of feed) (link f) w
         (before_wait during_lookup during_wait feed self)"
  by (cases feed) (simp_all add: do_monitor_task_def resolve_def feed_id_of_def before_wait_def)

lemma erase_IN_PROGRESS_clears_bit:
  "1 < minimal_interval opts \<Longrightarrow>
   task_defer_map (erase_state_for_feed_id opts feed_id IN_PROGRESS self) feed_id AND IN_PROGRESS = 0"
  by (simp add: erase_state_for_feed_id_def Let_def logger_def set_state_def put_nowait_def
      lock_feed_id_def call_later_def TaskState_values and_erased_IN_PROGRESS)

text \<open>
  For a worker whose feed is found, whatever the wait gives, the outcome is counted as the
  protocol says and the last step is the call that erases \<open>IN_PROGRESS\<close>; where the minimal
  interval exceeds one minute, the bit is clear afterwards.
\<close>

lemma worker_classifies_then_calls_erase:
  assumes "resolve get_or_none feed = Inr (Some f)"
  shows "do_monitor_task opts get_or_none during_lookup during_wait w feed self
         = (erase_state_for_feed_id opts (feed_id_of feed) IN_PROGRESS
              (classify (link f) w (before_wait during_lookup during_wait feed self)),
            uncaught w)"
    and "1 < minimal_interval opts \<Longrightarrow>
         task_defer_map
           (fst (do_monitor_task opts get_or_none during_lookup during_wait w feed self))
           (feed_id_of feed) AND IN_PROGRESS = 0"
proof -
  have "do_monitor_task opts get_or_none during_lookup during_wait w feed self
        = do_monitor_task_try opts (feed_id_of feed) (link f) w
            (before_wait during_lookup during_wait feed self)"
    by (rule do_monitor_task_found [OF assms])
  also have "\<dots> = (erase_state_for_feed_id opts (feed_id_of feed) IN_PROGRESS
                      (classify (link f) w (before_wait during_lookup during_wait feed self)),
                    uncaught w)"
    by (rule do_monitor_task_try_eq)
  finally show run: "do_monitor_task opts get_or_none during_lookup during_wait w feed self
       = (erase_state_for_feed_id opts (feed_id_of feed) IN_PROGRESS
            (classify (link f) w (before_wait during_lookup during_wait feed self)),
          uncaught w)" .
  assume "1 < minimal_interval opts"
  then show "task_defer_map
            (fst (do_monitor_task opts get_or_none during_lookup during_wait w feed self))
            (feed_id_of feed) AND IN_PROGRESS = 0"
    unfolding run by (simp add: erase_IN_PROGRESS_clears_bit)
qed

text \<open>
  Claim C5, evaluated where it fails. Under a minimal interval of one minute, feed 7 is
  submitted, its worker starts, and the feed is submitted again while the worker waits.
  The detector returns in time and the worker's \<^verbatim>\<open>finally\<close> clause calls the erase of
  \<open>IN_PROGRESS\<close>, but the call takes the resubmission path and returns without writing the
  state: after the worker has ended the state of feed 7 is still \<open>DEFERRED | IN_PROGRESS\<close>.
  And a worker for the id 7 whose lookup of the feed raises ends with that exception and
  with \<open>IN_PROGRESS\<close> set, since the lookup stands before the \<^verbatim>\<open>try\<close> statement.
\<close>

theorem worker_leaves_in_progress_set:
  "task_defer_map submitted_unlocked 7 = EMPTY
   \<and> queue submitted_unlocked = [A_Feed feed7]
   \<and> snd after_worker_with_deferral = None
   \<and> task_defer_map (fst after_worker_with_deferral) 7 = DEFERRED OR IN_PROGRESS
   \<and> task_defer_map (fst after_worker_with_deferral) 7 AND IN_PROGRESS = IN_PROGRESS
   \<and> snd after_lookup_raised = Some (Exception ''OperationalError'')
   \<and> task_defer_map (fst after_lookup_raised) 7 AND IN_PROGRESS = IN_PROGRESS"
proof -
  have i: "id' feed7 = 7" by (simp add: feed7_def)
  have s: "submitted_unlocked = Monitor_init\<lparr>queue := [A_Feed feed7]\<rparr>"
    by (simp add: submitted_unlocked_def submit_feed_def Let_def lock_feed_id_def put_nowait_def
        opts_interval_1_def Monitor_init_def i TaskState_values)
  have m: "task_defer_map
             (submit_feed opts_interval_1 feed7
                (mark_in_progress 7 (Monitor_init\<lparr>queue := []\<rparr>))) 7 = 6"
    by (simp add: submit_feed_def Let_def mark_in_progress_def set_state_def logger_def
        Monitor_init_def i TaskState_values)
  have w: "fst after_worker_with_deferral
           = erase_state_for_feed_id opts_interval_1 7 IN_PROGRESS
               (submit_feed opts_interval_1 feed7
                  (mark_in_progress 7 (Monitor_init\<lparr>queue := []\<rparr>)))"
    and n: "snd after_worker_with_deferral = None"
    unfolding after_worker_with_deferral_def s
    by (simp_all add: create_bg_task_step_def do_monitor_task_def do_monitor_task_try_def
        await_done_def i)
  have e: "task_defer_map
             (erase_state_for_feed_id opts_interval_1 7 IN_PROGRESS
                (submit_feed opts_interval_1 feed7
                   (mark_in_progress 7 (Monitor_init\<lparr>queue := []\<rparr>)))) 7 = 6"
    using m
    by (simp add: erase_state_for_feed_id_def Let_def lock_feed_id_def opts_interval_1_def
        put_nowait_def logger_def TaskState_values)
  have l: "after_lookup_raised
           = (mark_in_progress 7 Monitor_init, Some (Exception ''OperationalError''))"
    by (simp add: after_lookup_raised_def do_monitor_task_def)
  have b: "task_defer_map (mark_in_progress 7 Monitor_init) 7 = 2"
    by (simp add: mark_in_progress_def set_state_def Monitor_init_def TaskState_values)
  have c1: "task_defer_map submitted_unlocked 7 = EMPTY"
    by (simp add: s Monitor_init_def)
  have c2: "queue submitted_unlocked = [A_Feed feed7]"
    by (simp add: s)
  have c4: "task_defer_map (fst after_worker_with_deferral) 7 = DEFERRED OR IN_PROGRESS"
    unfolding w e by (simp add: TaskState_values)
  have c5: "task_defer_map (fst after_worker_with_deferral) 7 AND IN_PROGRESS = IN_PROGRESS"
    unfolding w e by (simp add: TaskState_values)
  have c6: "snd after_lookup_raised = Some (Exception ''OperationalError'')"
    by (simp add: l)
  have c7: "task_defer_map (fst after_lookup_raised) 7 AND IN_PROGRESS = IN_PROGRESS"
    by (simp add: l b TaskState_values)
  from c1 c2 n c4 c5 c6 c7 show ?thesis by blast
qed

section \<open>The back-off after a failed fetch\<close>

lemma detector_try_failed:
  assumes "status wf' \<noteq> 304" "rss_d wf' = None"
    and "10 \<le> error_count feed + 1" "error_count feed + 1 < 100"
  shows "detector_try ext opts now subs wf' (initial_vars feed stat0)
         = (\<lparr>feed_var = feed\<lparr>error_count := error_count feed + 1\<rparr>,
             stat_var = stat_failed stat0, no_error = False,
             new_next_check_time = backoff_next_check_time opts now feed,
             feed_updated_fields = {''error_count''}, effects = []\<rparr>, Return)"
proof -
  have i: "(case interval feed of
              None \<Rightarrow> default_interval opts
            | Some i \<Rightarrow> if i \<noteq> 0 then i else default_interval opts) = backoff_interval opts feed"
    by (cases "interval feed") (simp_all add: backoff_interval_def)
  show ?thesis
  proof (cases "backoff_interval opts feed < backoff_candidate opts feed")
    case True
    then have "backoff_interval opts feed
               < min (backoff_interval opts feed) 15 * min ((error_count feed + 1) div 10 + 1) 5"
      by (simp add: backoff_candidate_def)
    then show ?thesis
      using assms True
      by (simp add: detector_try_def Let_def initial_vars_def mark_field_def record_stat_def i
          backoff_next_check_time_def backoff_candidate_def)
  next
    case False
    then have "\<not> backoff_interval opts feed
               < min (backoff_interval opts feed) 15 * min ((error_count feed + 1) div 10 + 1) 5"
      by (simp add: backoff_candidate_def)
    then show ?thesis
      using assms False
      by (simp add: detector_try_def Let_def initial_vars_def mark_field_def record_stat_def i
          backoff_next_check_time_def backoff_candidate_def)
  qed
qed

lemma finally_failed:
  "detector_finally ext wf'
     \<lparr>feed_var = feed\<lparr>error_count := error_count feed + 1\<rparr>,
      stat_var = s, no_error = False, new_next_check_time = t,
      feed_updated_fields = {''error_count''}, effects = []\<rparr>
   = \<lparr>feed_var = feed\<lparr>error_count := error_count feed + 1, next_check_time := t\<rparr>,
      stat_var = s, no_error = False, new_next_check_time = t,
      feed_updated_fields =
        insert ''error_count'' (if t \<noteq> next_check_time feed then {''next_check_time''} else {}),
      effects =
        [Save (feed\<lparr>error_count := error_count feed + 1, next_check_time := t\<rparr>)
           (insert ''error_count''
              (if t \<noteq> next_check_time feed then {''next_check_time''} else {}))]\<rparr>"
proof (cases "t = next_check_time feed")
  case True
  then show ?thesis
    by (simp add: detector_finally_def finally_no_error_def finally_next_check_time_def
        finally_save_def mark_field_def)
next
  case False
  then show ?thesis
    by (auto simp add: detector_finally_def finally_no_error_def finally_next_check_time_def
        finally_save_def mark_field_def)
qed

lemma failed_check:
  assumes "reaches_fetch ext now feed" "status (fetched ext feed) \<noteq> 304"
    and "rss_d (fetched ext feed) = None"
    and "10 \<le> error_count feed + 1" "error_count feed + 1 < 100"
  shows "do_monitor_a_feed ext opts now feed stat0
         = (\<lparr>feed_var = failed_feed opts now feed, stat_var = stat_failed stat0,
             no_error = False, new_next_check_time = backoff_next_check_time opts now feed,
             feed_updated_fields = failed_fields opts now feed,
             effects = [Save (failed_feed opts now feed) (failed_fields opts now feed)]\<rparr>, None)"
  by (simp add: do_monitor_a_feed_fetches [OF assms(1)] detector_try_failed [OF assms(2-5)]
      finally_failed failed_feed_def failed_fields_def)

lemma failed_tag_count:
  "failed_count (stat_failed s) = failed_count s + 1"
  by (simp add: failed_count_def stat_failed_def stat_sum_def incr_def)

text \<open>
  Claim C6. A check that gets as far as the fetch, is not answered by 304 and has no parsed
  feed, and whose incremented error count is at least 10 and below 100, raises nothing,
  stores the incremented error count, counts one \<open>failed\<close> outcome, and leaves the feed's next
  check time at \<open>now\<close> plus the candidate in minutes exactly when the candidate exceeds the
  interval, and at none otherwise; the feed is saved with the fields so changed.
\<close>

theorem failed_check_backs_off:
  "reaches_fetch ext now feed \<and> status (fetched ext feed) \<noteq> 304
   \<and> rss_d (fetched ext feed) = None
   \<and> 10 \<le> error_count feed + 1 \<and> error_count feed + 1 < 100 \<longrightarrow>
     snd (do_monitor_a_feed ext opts now feed stat0) = None
     \<and> error_count (feed_var (fst (do_monitor_a_feed ext opts now feed stat0)))
         = error_count feed + 1
     \<and> (next_check_time (feed_var (fst (do_monitor_a_feed ext opts now feed stat0)))
          = Some (now + timedelta_minutes (backoff_candidate opts feed)))
         = (backoff_interval opts feed < backoff_candidate opts feed)
     \<and> next_check_time (feed_var (fst (do_monitor_a_feed ext opts now feed stat0)))
         = (if backoff_interval opts feed < backoff_candidate opts feed
            then Some (now + timedelta_minutes (backoff_candidate opts feed)) else None)
     \<and> stat_var (fst (do_monitor_a_feed ext opts now feed stat0)) = stat_failed stat0
     \<and> failed_count (stat_var (fst (do_monitor_a_feed ext opts now feed stat0)))
         = failed_count stat0 + 1
     \<and> effects (fst (do_monitor_a_feed ext opts now feed stat0))
         = [Save (failed_feed opts now feed) (failed_fields opts now feed)]"
proof (intro impI)
  assume a: "reaches_fetch ext now feed \<and> status (fetched ext feed) \<noteq> 304
   \<and> rss_d (fetched ext feed) = None
   \<and> 10 \<le> error_count feed + 1 \<and> error_count feed + 1 < 100"
  have c: "do_monitor_a_feed ext opts now feed stat0
         = (\<lparr>feed_var = failed_feed opts now feed, stat_var = stat_failed stat0,
             no_error = False, new_next_check_time = backoff_next_check_time opts now feed,
             feed_updated_fields = failed_fields opts now feed,
             effects = [Save (failed_feed opts now feed) (failed_fields opts now feed)]\<rparr>, None)"
    by (rule failed_check) (use a in simp_all)
  show "snd (do_monitor_a_feed ext opts now feed stat0) = None
     \<and> error_count (feed_var (fst (do_monitor_a_feed ext opts now feed stat0)))
         = error_count feed + 1
     \<and> (next_check_time (feed_var (fst (do_monitor_a_feed ext opts now feed stat0)))
          = Some (now + timedelta_minutes (backoff_candidate opts feed)))
         = (backoff_interval opts feed < backoff_candidate opts feed)
     \<and> next_check_time (feed_var (fst (do_monitor_a_feed ext opts now feed stat0)))
         = (if backoff_interval opts feed < backoff_candidate opts feed
            then Some (now + timedelta_minutes (backoff_candidate opts feed)) else None)
     \<and> stat_var (fst (do_monitor_a_feed ext opts now feed stat0)) = stat_failed stat0
     \<and> failed_count (stat_var (fst (do_monitor_a_feed ext opts now feed stat0)))
         = failed_count stat0 + 1
     \<and> effects (fst (do_monitor_a_feed ext opts now feed stat0))
         = [Save (failed_feed opts now feed) (failed_fields opts now feed)]"
    unfolding c
    by (simp add: failed_feed_def backoff_next_check_time_def failed_tag_count)
qed

text \<open>
  The statement above for a feed with nine errors on record and an interval of ten
  minutes: the error count becomes 10, the candidate is 20, and the next check is due 20
  minutes from now.
\<close>

theorem failed_check_backs_off_witness:
  "reaches_fetch (ext_returning wf_failed) 0 feed_9_errors
   \<and> status (fetched (ext_returning wf_failed) feed_9_errors) \<noteq> 304
   \<and> rss_d (fetched (ext_returning wf_failed) feed_9_errors) = None
   \<and> error_count feed_9_errors + 1 = 10
   \<and> backoff_interval opts_interval_5 feed_9_errors = 10
   \<and> backoff_candidate opts_interval_5 feed_9_errors = 20
   \<and> error_count (feed_var (fst (do_monitor_a_feed (ext_returning wf_failed) opts_interval_5 0
        feed_9_errors MonitoringStat_init))) = 10
   \<and> next_check_time (feed_var (fst (do_monitor_a_feed (ext_returning wf_failed) opts_interval_5 0
        feed_9_errors MonitoringStat_init))) = Some (0 + timedelta_minutes 20)
   \<and> failed_count (stat_var (fst (do_monitor_a_feed (ext_returning wf_failed) opts_interval_5 0
        feed_9_errors MonitoringStat_init))) = 1"
proof -
  have e: "error_count feed_9_errors + 1 = 10"
    by (simp add: feed_9_errors_def)
  have a: "reaches_fetch (ext_returning wf_failed) 0 feed_9_errors
     \<and> status (fetched (ext_returning wf_failed) feed_9_errors) \<noteq> 304
     \<and> rss_d (fetched (ext_returning wf_failed) feed_9_errors) = None
     \<and> 10 \<le> error_count feed_9_errors + 1 \<and> error_count feed_9_errors + 1 < 100"
    by (simp add: e reaches_fetch_def fetched_def ext_returning_def wf_failed_def
        feed_9_errors_def feed7_def sub1_def)
  have i: "backoff_interval opts_interval_5 feed_9_errors = 10"
    by (simp add: backoff_interval_def feed_9_errors_def)
  have c: "backoff_candidate opts_interval_5 feed_9_errors = 20"
    by (simp add: backoff_candidate_def i e)
  have z: "failed_count MonitoringStat_init = 0"
    by (simp add: failed_count_def MonitoringStat_init_def counter_empty_def)
  note w = failed_check_backs_off
      [where ext = "ext_returning wf_failed" and now = 0 and feed = feed_9_errors
         and opts = opts_interval_5 and ?stat0.0 = MonitoringStat_init, THEN mp, OF a]
  show ?thesis
    using a w by (simp add: e i c z failed_tag_count)
qed

section \<open>The next check from the server-side cache\<close>

















section \<open>The counters\<close>

lemma own_and_sum:
  "k \<noteq> ''SUM'' \<Longrightarrow> stat_sum (s\<lparr>counter_tier2 := incr k (counter_tier2 s)\<rparr>) = tier2_bumped {k, ''SUM''} s"
  by (auto simp: stat_sum_def tier2_bumped_def incr_def bump_def fun_eq_iff)

lemma stat_not_updated_eq: "stat_not_updated s = tier2_bumped {''not_updated'', ''SUM''} s"
  by (simp add: stat_not_updated_def own_and_sum)

lemma own_and_not_updated:
  "k \<noteq> ''SUM'' \<Longrightarrow> k \<noteq> ''not_updated'' \<Longrightarrow>
   stat_not_updated (s\<lparr>counter_tier2 := incr k (counter_tier2 s)\<rparr>) = tier2_bumped {k, ''not_updated'', ''SUM''} s"
  by (auto simp: stat_not_updated_eq tier2_bumped_def incr_def bump_def fun_eq_iff)

lemma stat_cached_eq: "stat_cached s = tier2_bumped {''cached'', ''not_updated'', ''SUM''} s"
  by (simp add: stat_cached_def own_and_not_updated)
lemma stat_empty_eq: "stat_empty s = tier2_bumped {''empty'', ''not_updated'', ''SUM''} s"
  by (simp add: stat_empty_def own_and_not_updated)
lemma stat_failed_eq: "stat_failed s = tier2_bumped {''failed'', ''SUM''} s"
  by (simp add: stat_failed_def own_and_sum)
lemma stat_updated_eq: "stat_updated s = tier2_bumped {''updated'', ''SUM''} s"
  by (simp add: stat_updated_def own_and_sum)
lemma stat_skipped_eq: "stat_skipped s = tier2_bumped {''skipped'', ''SUM''} s"
  by (simp add: stat_skipped_def own_and_sum)
lemma stat_timeout_eq: "stat_timeout s = tier2_bumped {''timeout'', ''SUM''} s"
  by (simp add: stat_timeout_def own_and_sum)
lemma stat_cancelled_eq: "stat_cancelled s = tier2_bumped {''cancelled'', ''SUM''} s"
  by (simp add: stat_cancelled_def own_and_sum)
lemma stat_unknown_error_eq: "stat_unknown_error s = tier2_bumped {''unknown_error'', ''SUM''} s"
  by (simp add: stat_unknown_error_def own_and_sum)
lemma stat_timeout_unknown_error_eq:
  "stat_timeout_unknown_error s = tier2_bumped {''timeout_unknown_error'', ''SUM''} s"
  by (simp add: stat_timeout_unknown_error_def own_and_sum)
lemma stat_deferred_eq: "stat_deferred s = tier2_bumped {''deferred'', ''SUM''} s"
  by (simp add: stat_deferred_def own_and_sum)
lemma stat_resubmitted_eq: "stat_resubmitted s = tier2_bumped {''resubmitted'', ''SUM''} s"
  by (simp add: stat_resubmitted_def own_and_sum)

lemmas stat_tag_eqs =
  stat_not_updated_eq stat_cached_eq stat_empty_eq stat_failed_eq stat_updated_eq
  stat_skipped_eq stat_timeout_eq stat_cancelled_eq stat_unknown_error_eq
  stat_timeout_unknown_error_eq stat_deferred_eq stat_resubmitted_eq

lemma balanced_print: "tier2_balanced s \<Longrightarrow> tier2_balanced (stat_do (Print_summary now) s)"
  by (simp add: tier2_balanced_def print_summary_def Let_def sum_of_tags_def counter_empty_def
      split: option.splits)

lemma balanced_do: "tier2_balanced s \<Longrightarrow> tier2_balanced (stat_do c s)"
proof (cases c)
  case (Print_summary now)
  assume "tier2_balanced s"
  then show ?thesis unfolding Print_summary by (rule balanced_print)
qed (simp_all add: stat_tag_eqs tier2_balanced_def tier2_bumped_def bump_def sum_of_tags_def)

lemma balanced_run: "tier2_balanced s \<Longrightarrow> tier2_balanced (stat_run cs s)"
  by (induction cs arbitrary: s) (simp_all add: balanced_do)

lemma balanced_init: "tier2_balanced MonitoringStat_init"
  by (simp add: tier2_balanced_def MonitoringStat_init_def counter_empty_def sum_of_tags_def)

text \<open>
  Claim C8. \<open>cached\<close> and \<open>empty\<close> add 1 to their own key, to \<open>not_updated\<close> and to
  \<open>SUM\<close> of the tier-2 counter and change nothing else; every other tag method adds 1 to
  its own key and to \<open>SUM\<close> and changes nothing else. After any sequence of calls on a
  fresh \<^verbatim>\<open>MonitoringStat\<close>, the tier-2 \<open>SUM\<close> is the sum of \<open>not_updated\<close>, \<open>failed\<close>,
  \<open>updated\<close>, \<open>skipped\<close>, \<open>timeout\<close>, \<open>cancelled\<close>, \<open>unknown_error\<close>,
  \<open>timeout_unknown_error\<close>, \<open>deferred\<close> and \<open>resubmitted\<close>.
\<close>

theorem stat_tags_increment:
  "stat_cached s = tier2_bumped {''cached'', ''not_updated'', ''SUM''} s
   \<and> stat_empty s = tier2_bumped {''empty'', ''not_updated'', ''SUM''} s
   \<and> stat_not_updated s = tier2_bumped {''not_updated'', ''SUM''} s
   \<and> stat_failed s = tier2_bumped {''failed'', ''SUM''} s
   \<and> stat_updated s = tier2_bumped {''updated'', ''SUM''} s
   \<and> stat_skipped s = tier2_bumped {''skipped'', ''SUM''} s
   \<and> stat_timeout s = tier2_bumped {''timeout'', ''SUM''} s
   \<and> stat_cancelled s = tier2_bumped {''cancelled'', ''SUM''} s
   \<and> stat_unknown_error s = tier2_bumped {''unknown_error'', ''SUM''} s
   \<and> stat_timeout_unknown_error s = tier2_bumped {''timeout_unknown_error'', ''SUM''} s
   \<and> stat_deferred s = tier2_bumped {''deferred'', ''SUM''} s
   \<and> stat_resubmitted s = tier2_bumped {''resubmitted'', ''SUM''} s
   \<and> counter_tier2 (stat_run cs MonitoringStat_init) ''SUM''
       = sum_of_tags (counter_tier2 (stat_run cs MonitoringStat_init))"
  using balanced_run [OF balanced_init, of cs]
  unfolding tier2_balanced_def stat_tag_eqs by simp

section \<open>The summary\<close>

lemma py_round_less_iff: "(py_round x < 600) = (x < 1199 / 2)"
proof -
  define f where "f = \<lfloor>x\<rfloor>"
  define r where "r = x - of_int f"
  have r0: "0 \<le> r" and r1: "r < 1"
    unfolding r_def f_def by linarith+
  have x: "x = of_int f + r" by (simp add: r_def)
  have f599: "(f < 600) = (of_int f \<le> (599::rat))"
    by linarith
  have f598: "(f < 599) = (of_int f \<le> (598::rat))"
    by linarith
  have ev: "f = 599 \<Longrightarrow> odd f" by simp
  have cases: "f < 599 \<or> f = 599 \<or> 600 \<le> f" by linarith
  have "py_round x = (if r < 1 / 2 then f else if 1 / 2 < r then f + 1 else if even f then f else f + 1)"
    by (simp add: py_round_def Let_def f_def r_def)
  then show ?thesis
    using cases
  proof (elim disjE)
    assume a: "f < 599"
    then have "of_int f \<le> (598::rat)" using f598 by simp
    then have "x < 1199 / 2" using x r1 by linarith
    moreover have "py_round x < 600" using a \<open>py_round x = _\<close> by (auto split: if_splits)
    ultimately show ?thesis by simp
  next
    assume a: "f = 599"
    then have xr: "x = 599 + r" using x by simp
    have "odd f" using a by simp
    then have "py_round x = (if r < 1 / 2 then 599 else 600)" using a \<open>py_round x = _\<close> by auto
    then show ?thesis using xr by (auto split: if_splits)
  next
    assume a: "600 \<le> f"
    then have "(600::rat) \<le> of_int f" by linarith
    then have "\<not> x < 1199 / 2" using x r0 by linarith
    moreover have "\<not> py_round x < 600" using a \<open>py_round x = _\<close> by (auto split: if_splits)
    ultimately show ?thesis by simp
  qed
qed


text \<open>
  Claim C9, amended. The first call of \<^verbatim>\<open>print_summary\<close> records the two baseline times,
  logs nothing and leaves both counters as they are. A later call logs the tier-2 line,
  adds tier 2 into tier 1 and clears tier 2; it then logs the tier-1 line, clears tier 1
  and restarts the tier-1 period exactly when the rounded elapsed time reaches the period,
  which is from 599.5 seconds on.
\<close>

theorem print_summary_rounds_elapsed:
  "(tier1_last_summary_time self = None \<longrightarrow>
      print_summary now self =
        Inr (self\<lparr>tier1_last_summary_time := Some now, tier2_last_summary_time := Some now\<rparr>, []))
   \<and> (tier1_last_summary_time self = Some t1 \<and> tier2_last_summary_time self = Some t2
        \<and> tier1_summary_period self = TIMEOUT \<longrightarrow>
      print_summary now self =
        Inr (self\<lparr>tier2_last_summary_time := Some now,
                  counter_tier2 := counter_empty,
                  counter_tier1 :=
                    (if tier1_due now t1 then counter_empty
                     else counter_iadd (counter_tier1 self) (counter_tier2 self)),
                  tier1_last_summary_time := Some (if tier1_due now t1 then now else t1)\<rparr>,
             summarize (counter_tier2 self) DEBUG (py_round (now - t2))
             # (if tier1_due now t1
                then [summarize (counter_iadd (counter_tier1 self) (counter_tier2 self)) INFO
                        (py_round (now - t1))]
                else [])))"
proof (intro conjI impI)
  assume "tier1_last_summary_time self = None"
  then show "print_summary now self =
        Inr (self\<lparr>tier1_last_summary_time := Some now, tier2_last_summary_time := Some now\<rparr>, [])"
    by (simp add: print_summary_def)
next
  assume a: "tier1_last_summary_time self = Some t1 \<and> tier2_last_summary_time self = Some t2
        \<and> tier1_summary_period self = TIMEOUT"
  have due: "tier1_due now t1 = (\<not> py_round (now - t1) < 600)"
    by (simp add: tier1_due_def py_round_less_iff not_less)
  show "print_summary now self =
        Inr (self\<lparr>tier2_last_summary_time := Some now,
                  counter_tier2 := counter_empty,
                  counter_tier1 :=
                    (if tier1_due now t1 then counter_empty
                     else counter_iadd (counter_tier1 self) (counter_tier2 self)),
                  tier1_last_summary_time := Some (if tier1_due now t1 then now else t1)\<rparr>,
             summarize (counter_tier2 self) DEBUG (py_round (now - t2))
             # (if tier1_due now t1
                then [summarize (counter_iadd (counter_tier1 self) (counter_tier2 self)) INFO
                        (py_round (now - t1))]
                else []))"
    using a by (simp add: print_summary_def Let_def due TIMEOUT_def)
qed

text \<open>
  The statement above on a fresh \<^verbatim>\<open>MonitoringStat\<close>: the first call at time 0, then one
  \<open>updated\<close> outcome and a second call after 599.75 seconds (tier 1 is logged) or after 599
  seconds (it is not).
\<close>

theorem print_summary_rounds_elapsed_witness:
  "print_summary 0 MonitoringStat_init = Inr (baselined, [])
   \<and> map_sum id snd (print_summary (2399 / 4) (stat_updated baselined))
       = Inr [Log DEBUG (Summary 1 600 [(''updated'', [1]), (''not updated'', [0, 0, 0])]),
              Log INFO (Summary 1 600 [(''updated'', [1]), (''not updated'', [0, 0, 0])])]
   \<and> map_sum id snd (print_summary 599 (stat_updated baselined))
       = Inr [Log DEBUG (Summary 1 599 [(''updated'', [1]), (''not updated'', [0, 0, 0])])]"
proof -
  have r1: "py_round (2399 / 4) = 600" by code_simp
  have r2: "py_round 599 = 599" by code_simp
  have d1: "tier1_due (2399 / 4) 0" by (simp add: tier1_due_def)
  have d2: "\<not> tier1_due 599 0" by (simp add: tier1_due_def)
  have p: "tier1_last_summary_time (stat_updated baselined) = Some 0
           \<and> tier2_last_summary_time (stat_updated baselined) = Some 0
           \<and> tier1_summary_period (stat_updated baselined) = TIMEOUT"
    by (simp add: stat_updated_def stat_sum_def baselined_def MonitoringStat_init_def)
  have c2: "counter_tier2 (stat_updated baselined) = (\<lambda>k. 0)(''updated'' := 1, ''SUM'' := 1)"
    by (simp add: stat_updated_def stat_sum_def baselined_def MonitoringStat_init_def incr_def
        counter_empty_def)
  have c1: "counter_tier1 (stat_updated baselined) = (\<lambda>k. 0)"
    by (simp add: stat_updated_def stat_sum_def baselined_def MonitoringStat_init_def
        counter_empty_def)
  have s2: "summarize (counter_tier2 (stat_updated baselined)) DEBUG n
            = Log DEBUG (Summary 1 n [(''updated'', [1]), (''not updated'', [0, 0, 0])])" for n
    by (simp add: c2 summarize_def stat_str_def stat_part_def)
  have s1: "summarize (counter_iadd (counter_tier1 (stat_updated baselined))
                          (counter_tier2 (stat_updated baselined))) INFO n
            = Log INFO (Summary 1 n [(''updated'', [1]), (''not updated'', [0, 0, 0])])" for n
    by (simp add: c1 c2 counter_iadd_def summarize_def stat_str_def stat_part_def)
  have i: "tier1_last_summary_time MonitoringStat_init = None"
    by (simp add: MonitoringStat_init_def)
  have w1: "print_summary 0 MonitoringStat_init = Inr (baselined, [])"
    using print_summary_rounds_elapsed [where self = MonitoringStat_init and now = 0] i
    by (simp add: baselined_def)
  have w2: "map_sum id snd (print_summary (2399 / 4) (stat_updated baselined))
       = Inr [Log DEBUG (Summary 1 600 [(''updated'', [1]), (''not updated'', [0, 0, 0])]),
              Log INFO (Summary 1 600 [(''updated'', [1]), (''not updated'', [0, 0, 0])])]"
    using print_summary_rounds_elapsed
      [where self = "stat_updated baselined" and now = "2399 / 4" and ?t1.0 = 0 and ?t2.0 = 0] p
    by (simp add: d1 r1 s1 s2)
  have w3: "map_sum id snd (print_summary 599 (stat_updated baselined))
       = Inr [Log DEBUG (Summary 1 599 [(''updated'', [1]), (''not updated'', [0, 0, 0])])]"
    using print_summary_rounds_elapsed
      [where self = "stat_updated baselined" and now = 599 and ?t1.0 = 0 and ?t2.0 = 0] p
    by (simp add: d2 r2 s2)
  show ?thesis using w1 w2 w3 by simp
qed

text \<open>
  Claim C9 as it is written fails: 599.75 seconds after the last tier-1 summary, that is
  less than 600 seconds, \<^verbatim>\<open>print_summary\<close> logs the tier-1 summary.
\<close>

theorem print_summary_counterexample:
  "map_sum id snd (print_summary (2399 / 4) (stat_updated baselined))
     = Inr [Log DEBUG (Summary 1 600 [(''updated'', [1]), (''not updated'', [0, 0, 0])]),
            Log INFO (Summary 1 600 [(''updated'', [1]), (''not updated'', [0, 0, 0])])]
   \<and> tier1_last_summary_time baselined = Some 0
   \<and> (2399 / 4 :: rat) - 0 < 600"
proof -
  have r1: "py_round (2399 / 4) = 600" by code_simp
  have c2: "counter_tier2 (stat_updated baselined) = (\<lambda>k. 0)(''updated'' := 1, ''SUM'' := 1)"
    by (simp add: stat_updated_def stat_sum_def baselined_def MonitoringStat_init_def incr_def
        counter_empty_def)
  have c1: "counter_tier1 (stat_updated baselined) = (\<lambda>k. 0)"
    by (simp add: stat_updated_def stat_sum_def baselined_def MonitoringStat_init_def
        counter_empty_def)
  have t: "tier1_last_summary_time (stat_updated baselined) = Some 0
           \<and> tier2_last_summary_time (stat_updated baselined) = Some 0
           \<and> tier1_summary_period (stat_updated baselined) = 600"
    by (simp add: stat_updated_def stat_sum_def baselined_def MonitoringStat_init_def TIMEOUT_def)
  show ?thesis
    by (simp add: print_summary_def Let_def t r1 c1 c2 counter_iadd_def summarize_def
        stat_str_def stat_part_def counter_empty_def)
       (simp add: baselined_def)
qed

section \<open>The worker for a missing feed\<close>

text \<open>
  Claim C10. A worker that is given a feed id for which the store has no feed changes the
  monitor, as it stands when the lookup returns, in two ways only: the state of that id
  becomes \<open>EMPTY\<close>, whatever flags it held, and one error is logged. The statistics, the
  queue and the scheduled unlocks stay as they are, and no exception leaves the worker.
  A scheduled erase of \<open>LOCKED\<close> that runs on the result only logs a warning.
\<close>

theorem worker_feed_not_found_clears_state:
  "get_or_none feed_id = Inr None \<longrightarrow>
     fst (do_monitor_task opts get_or_none during_lookup during_wait w (An_Id feed_id) self)
       = (during_lookup (mark_in_progress feed_id self))
           \<lparr>task_defer_map :=
              (task_defer_map (during_lookup (mark_in_progress feed_id self)))(feed_id := EMPTY),
            logs := logs (during_lookup (mark_in_progress feed_id self))
                      @ [Log ERROR (Msg ''Feed not found'' [feed_id] [])]\<rparr>
     \<and> snd (do_monitor_task opts get_or_none during_lookup during_wait w (An_Id feed_id) self)
          = None
     \<and> erase_state_for_feed_id opts feed_id LOCKED
          (fst (do_monitor_task opts get_or_none during_lookup during_wait w (An_Id feed_id) self))
        = logger WARNING (Msg ''Unexpected empty state'' [0, feed_id] [])
            (fst (do_monitor_task opts get_or_none during_lookup during_wait w (An_Id feed_id) self))"
  by (simp add: do_monitor_task_def Let_def set_state_def logger_def erase_state_for_feed_id_def
      EMPTY_def)

text \<open>
  The statement above for feed 7, locked with a submission deferred and its unlock still
  scheduled: after the worker the state is empty, nothing is queued or counted, and the
  unlock, when it runs, logs the warning and changes nothing else.
\<close>

theorem worker_feed_not_found_clears_state_witness:
  "task_defer_map locked_deferred 7 = LOCKED OR DEFERRED
   \<and> timers locked_deferred = [(300, 7, LOCKED)]
   \<and> task_defer_map after_not_found 7 = EMPTY
   \<and> queue after_not_found = []
   \<and> resubmitted_count after_not_found = 0
   \<and> timers after_not_found = [(300, 7, LOCKED)]
   \<and> logs (run_timer opts_interval_5 after_not_found)
       = [Log ERROR (Msg ''Feed not found'' [7] []),
          Log WARNING (Msg ''Unexpected empty state'' [0, 7] [])]
   \<and> task_defer_map (run_timer opts_interval_5 after_not_found) 7 = EMPTY
   \<and> queue (run_timer opts_interval_5 after_not_found) = []"
proof -
  have n: "(\<lambda>feed_id::int. Inr None :: exc + Feed option) 7 = Inr None" by simp
  note w = worker_feed_not_found_clears_state
      [where get_or_none = "\<lambda>feed_id. Inr None" and feed_id = 7 and opts = opts_interval_5
         and during_lookup = id and during_wait = id and w = "Done Returned"
         and self = locked_deferred, THEN mp, OF n]
  have s: "after_not_found
           = (mark_in_progress 7 locked_deferred)
               \<lparr>task_defer_map := (task_defer_map (mark_in_progress 7 locked_deferred))(7 := EMPTY),
                logs := logs (mark_in_progress 7 locked_deferred)
                          @ [Log ERROR (Msg ''Feed not found'' [7] [])]\<rparr>"
    unfolding after_not_found_def using w [THEN conjunct1] by simp
  have t: "run_timer opts_interval_5 after_not_found
           = logger WARNING (Msg ''Unexpected empty state'' [0, 7] [])
               (after_not_found\<lparr>timers := []\<rparr>)"
    unfolding s
    by (simp add: run_timer_def mark_in_progress_def locked_deferred_def call_later_def
        set_state_def Monitor_init_def erase_state_for_feed_id_def Let_def EMPTY_def)
  show ?thesis
    unfolding t unfolding s
    by (simp add: mark_in_progress_def locked_deferred_def call_later_def set_state_def
        Monitor_init_def logger_def resubmitted_count_def resubmitted_from_init EMPTY_def)
qed

end
